theory Spec2Isabelle
  imports Main
begin

section \<open>JavaScript values\<close>

text \<open>
  A JavaScript string is a sequence of UTF-16 code units; \<open>length\<close> of the list is the
  string's \<open>.length\<close>. ASCII literals of the source are written \<open>ascii ''...''\<close>.
\<close>

type_synonym jsstring = "nat list"

definition ascii :: "string \<Rightarrow> jsstring" where
  "ascii s = map of_char s"

text \<open>
  The values \<open>JSON.parse\<close> produces, and \<open>undefined\<close> (the result of reading a
  property that is not there). \<open>JNum m e\<close> is the number written \<open>m * 10^e\<close>; an
  object is the list of its own properties in the order \<open>Object.keys\<close> gives them.
\<close>

datatype jsval =
    JUndefined
  | JNull
  | JBool bool
  | JNum int int
  | JStr jsstring
  | JArr "jsval list"
  | JObj "(jsstring \<times> jsval) list"

section \<open>The data model (models/automationRun.ts)\<close>

datatype AutomationRunStatus = status_success | status_partial | status_error

datatype AutomationEventLevel = level_info | level_warn | level_error

datatype AutomationEventStep =
    step_select_channels
  | step_channel_check
  | step_generate_idea
  | step_generate_prompt
  | step_create_job
  | step_send_to_bot
  | step_update_channel_next_run
  | step_other

type_synonym Timestamp = nat

text \<open>\<open>Omit<AutomationEvent, "runId" | "createdAt">\<close>, the argument of \<open>logEvent\<close>.\<close>

record AutomationEvent_in =
  level :: AutomationEventLevel
  step :: AutomationEventStep
  channelId :: "jsstring option"
  channelName :: "jsstring option"
  message :: jsstring
  details :: "(jsstring \<times> jsval) list option"

text \<open>The object \<open>{...event, runId: this.runId}\<close> handed to \<open>createAutomationEvent\<close>.\<close>

record AutomationEvent_doc = AutomationEvent_in +
  event_runId :: jsstring

text \<open>\<open>Partial<AutomationRun>\<close>: every field may be absent.\<close>

record AutomationRun_patch =
  patch_id :: "jsstring option"
  patch_startedAt :: "Timestamp option"
  patch_finishedAt :: "Timestamp option"
  patch_status :: "AutomationRunStatus option"
  patch_schedulerInvocationAt :: "Timestamp option"
  patch_channelsPlanned :: "nat option"
  patch_channelsProcessed :: "nat option"
  patch_jobsCreated :: "nat option"
  patch_errorsCount :: "nat option"
  patch_lastErrorMessage :: "jsstring option"
  patch_timezone :: "jsstring option"

definition empty_patch :: AutomationRun_patch where
  "empty_patch =
     \<lparr>patch_id = None, patch_startedAt = None, patch_finishedAt = None, patch_status = None,
      patch_schedulerInvocationAt = None, patch_channelsPlanned = None,
      patch_channelsProcessed = None, patch_jobsCreated = None, patch_errorsCount = None,
      patch_lastErrorMessage = None, patch_timezone = None\<rparr>"

section \<open>The run ledger (class AutomationLogger)\<close>

text \<open>
  The private fields of the class. The three counters start at 0 and are only ever
  incremented, so they are natural numbers. (The constructor also keeps its argument
  \<open>initialRun\<close>, which no method reads.)
\<close>

record AutomationLogger =
  runId :: jsstring
  errorsCount :: nat
  jobsCreated :: nat
  channelsProcessed :: nat

text \<open>
  A value caught by \<open>catch (error: unknown)\<close>. An instance of \<open>Error\<close> is given by the
  string its \<open>message\<close> converts to, any other value by what \<open>String(error)\<close> makes of
  it. The conversion can itself throw: \<open>UnprintableError e\<close> is an instance of \<open>Error\<close>
  whose \<open>message\<close> cannot be read or put into a template literal (a symbol, say), and
  \<open>UnprintableValue e\<close> is another value for which \<open>String(error)\<close> throws (an object
  made by \<open>Object.create(null)\<close>, say); \<open>e\<close> is what the conversion throws.
\<close>

datatype thrown =
    ErrorInstance jsstring
  | OtherValue jsstring
  | UnprintableError thrown
  | UnprintableValue thrown

text \<open>
  \<open>error instanceof Error ? error.message : String(error)\<close>, as the text the template
  literal of the log line needs: the text, or what computing it throws.
\<close>

fun errorMessage :: "thrown \<Rightarrow> thrown + jsstring" where
  "errorMessage (ErrorInstance m) = Inr m"
| "errorMessage (OtherValue s) = Inr s"
| "errorMessage (UnprintableError e) = Inl e"
| "errorMessage (UnprintableValue e) = Inl e"


text \<open>
  What a ledger operation can touch: the object's fields, the document store behind the
  persistence service (\<open>firebase/automationRunsService\<close>, of any type \<open>'db\<close>) and the
  lines written with \<open>console.error\<close>.
\<close>

record 'db ledger_state =
  logger :: AutomationLogger
  store :: 'db
  console :: "jsstring list"

text \<open>
  The two functions of the persistence service that the class calls are parameters of the
  model: given the store, each either throws (\<open>Inl\<close>) or completes (\<open>Inr\<close>), and leaves
  a store behind in both cases. An awaited call of an \<open>async\<close> method is modelled by its
  outcome: \<open>Inl\<close> is a rejected promise, \<open>Inr\<close> a fulfilled one.
\<close>

type_synonym 'db createAutomationEvent_fn =
  "AutomationEvent_doc \<Rightarrow> 'db \<Rightarrow> (thrown + unit) \<times> 'db"

type_synonym 'db updateAutomationRun_fn =
  "jsstring \<Rightarrow> AutomationRun_patch \<Rightarrow> 'db \<Rightarrow> (thrown + unit) \<times> 'db"

type_synonym 'db ledger_op = "'db ledger_state \<Rightarrow> (thrown + unit) \<times> 'db ledger_state"

text \<open>\<open>try { body } catch (error) { handler }\<close>: the handler runs in the state the body left.\<close>

definition try_catch ::
  "'db ledger_op \<Rightarrow> (thrown \<Rightarrow> 'db ledger_op) \<Rightarrow> 'db ledger_op" where
  "try_catch body handler s =
     (case body s of
        (Inl e, s') \<Rightarrow> handler e s'
      | (Inr u, s') \<Rightarrow> (Inr u, s'))"

definition console_error :: "jsstring \<Rightarrow> 'db ledger_op" where
  "console_error line s = (Inr (), s\<lparr>console := console s @ [line]\<rparr>)"

text \<open>
  The body of each \<open>catch\<close> block of the class: \<open>errorMessage\<close> is computed and put
  into the line for \<open>console.error\<close>. No \<open>try\<close> surrounds it, so what the computation
  throws leaves the method.
\<close>

definition log_failure :: "jsstring \<Rightarrow> thrown \<Rightarrow> 'db ledger_op" where
  "log_failure prefix error s =
     (case errorMessage error of
        Inl e \<Rightarrow> (Inl e, s)
      | Inr m \<Rightarrow> console_error (prefix @ m) s)"

text \<open>The \<open>try\<close> block of \<open>logEvent\<close>: the counter is updated after the awaited call.\<close>

definition logEvent_try ::
  "'db createAutomationEvent_fn \<Rightarrow> AutomationEvent_in \<Rightarrow> 'db ledger_op" where
  "logEvent_try createAutomationEvent event s =
     (case createAutomationEvent
             (AutomationEvent_in.extend event
                (AutomationEvent_doc.fields (runId (logger s))))
             (store s) of
        (Inl e, d) \<Rightarrow> (Inl e, s\<lparr>store := d\<rparr>)
      | (Inr u, d) \<Rightarrow>
          (if level event = level_error
           then (Inr (), s\<lparr>store := d,
                           logger := (logger s)\<lparr>errorsCount := errorsCount (logger s) + 1\<rparr>\<rparr>)
           else (Inr (), s\<lparr>store := d\<rparr>)))"

definition logEvent ::
  "'db createAutomationEvent_fn \<Rightarrow> AutomationEvent_in \<Rightarrow> 'db ledger_op" where
  "logEvent createAutomationEvent event =
     try_catch (logEvent_try createAutomationEvent event)
       (log_failure (ascii ''[AutomationLogger] Failed to log event (non-fatal): ''))"

definition updateRun_try ::
  "'db updateAutomationRun_fn \<Rightarrow> AutomationRun_patch \<Rightarrow> 'db ledger_op" where
  "updateRun_try updateAutomationRun patch s =
     (case updateAutomationRun (runId (logger s)) patch (store s) of
        (r, d) \<Rightarrow> (r, s\<lparr>store := d\<rparr>))"

definition updateRun ::
  "'db updateAutomationRun_fn \<Rightarrow> AutomationRun_patch \<Rightarrow> 'db ledger_op" where
  "updateRun updateAutomationRun patch =
     try_catch (updateRun_try updateAutomationRun patch)
       (log_failure (ascii ''[AutomationLogger] Failed to update run (non-fatal): ''))"

definition incrementJobsCreated :: "'db ledger_state \<Rightarrow> 'db ledger_state" where
  "incrementJobsCreated s =
     s\<lparr>logger := (logger s)\<lparr>jobsCreated := jobsCreated (logger s) + 1\<rparr>\<rparr>"

definition incrementChannelsProcessed :: "'db ledger_state \<Rightarrow> 'db ledger_state" where
  "incrementChannelsProcessed s =
     s\<lparr>logger := (logger s)\<lparr>channelsProcessed := channelsProcessed (logger s) + 1\<rparr>\<rparr>"

text \<open>
  The status \<open>finishRun\<close> computes: \<open>let status = "success"\<close>, overwritten inside
  \<open>if (this.errorsCount > 0)\<close>.
\<close>

definition finishRun_status :: "AutomationLogger \<Rightarrow> AutomationRunStatus" where
  "finishRun_status l =
     (let status = status_success in
      if errorsCount l > 0 then
        (if jobsCreated l = 0 \<and> channelsProcessed l = 0 then status_error else status_partial)
      else status)"

text \<open>The object literal \<open>finishRun\<close> passes to \<open>this.updateRun\<close>.\<close>

definition finishRun_patch :: "Timestamp \<Rightarrow> AutomationLogger \<Rightarrow> AutomationRun_patch" where
  "finishRun_patch finishedAt l =
     empty_patch\<lparr>patch_finishedAt := Some finishedAt,
                 patch_status := Some (finishRun_status l),
                 patch_channelsProcessed := Some (channelsProcessed l),
                 patch_jobsCreated := Some (jobsCreated l),
                 patch_errorsCount := Some (errorsCount l)\<rparr>"

text \<open>
  \<open>finishRun\<close>; \<open>now\<close> is the outcome of \<open>admin.firestore.Timestamp.now()\<close>, which
  stands inside the \<open>try\<close> block like the rest of the body.
\<close>

definition finishRun_try ::
  "(thrown + Timestamp) \<Rightarrow> 'db updateAutomationRun_fn \<Rightarrow> 'db ledger_op" where
  "finishRun_try now updateAutomationRun s =
     (case now of
        Inl e \<Rightarrow> (Inl e, s)
      | Inr finishedAt \<Rightarrow>
          updateRun updateAutomationRun (finishRun_patch finishedAt (logger s)) s)"

definition finishRun ::
  "(thrown + Timestamp) \<Rightarrow> 'db updateAutomationRun_fn \<Rightarrow> 'db ledger_op" where
  "finishRun now updateAutomationRun =
     try_catch (finishRun_try now updateAutomationRun)
       (log_failure (ascii ''[AutomationLogger] Failed to finish run (non-fatal): ''))"

definition getErrorsCount :: "'db ledger_state \<Rightarrow> nat" where
  "getErrorsCount s = errorsCount (logger s)"

definition getJobsCreated :: "'db ledger_state \<Rightarrow> nat" where
  "getJobsCreated s = jobsCreated (logger s)"

definition getChannelsProcessed :: "'db ledger_state \<Rightarrow> nat" where
  "getChannelsProcessed s = channelsProcessed (logger s)"

text \<open>Two persistence services to run the ledger on: one that always fails, one that
  appends what it is given to a list.\<close>

definition failing_create :: "unit createAutomationEvent_fn" where
  "failing_create ev d = (Inl (ErrorInstance (ascii ''unavailable'')), d)"

definition ok_create :: "unit createAutomationEvent_fn" where
  "ok_create ev d = (Inr (), d)"

definition recording_update :: "((jsstring \<times> AutomationRun_patch) list) updateAutomationRun_fn" where
  "recording_update rid patch d = (Inr (), d @ [(rid, patch)])"






definition example_event :: "AutomationEventLevel \<Rightarrow> AutomationEvent_in" where
  "example_event lv =
     \<lparr>level = lv, step = step_generate_idea, channelId = None, channelName = None,
      message = ascii ''generation failed'', details = None\<rparr>"

definition example_state :: "nat \<Rightarrow> nat \<Rightarrow> nat \<Rightarrow> 'db \<Rightarrow> 'db ledger_state" where
  "example_state e j c d =
     \<lparr>logger = \<lparr>runId = ascii ''run1'', errorsCount = e, jobsCreated = j,
                 channelsProcessed = c\<rparr>,
      store = d, console = []\<rparr>"

section \<open>The text-generation pipeline: shared parts\<close>

text \<open>
  \<open>Error\<close> objects thrown inside the three generation functions, one constructor per
  message of the source; \<open>TypeError\<close> and \<open>SyntaxError\<close> are the engine's own (a property
  read on \<open>null\<close>, a call of something that is not a function, \<open>JSON.parse\<close> on text
  that is not JSON); \<open>ServiceError\<close> is an \<open>Error\<close> thrown by the OpenAI client, with
  its message.
\<close>

datatype js_error =
    ApiKeyMissing
  | EmptyResponse
  | UnparseableResponse
  | IdeasArrayNotFound
  | NoIdeasGenerated
  | VeoPromptMissing
  | TypeError
  | SyntaxError
  | ServiceError jsstring

text \<open>
  What a \<open>catch (error: unknown)\<close> of a generation function receives: an \<open>Error\<close> of
  one of the kinds above, an \<open>Error\<close> of the service whose \<open>message\<close> cannot be put into
  a template literal (with what the attempt throws), or a value that is not an \<open>Error\<close>.
\<close>

datatype gen_thrown = Err js_error | ErrUnprintable thrown | NonErr

fun of_thrown :: "thrown \<Rightarrow> gen_thrown" where
  "of_thrown (ErrorInstance m) = Err (ServiceError m)"
| "of_thrown (OtherValue s) = NonErr"
| "of_thrown (UnprintableError e) = ErrUnprintable e"
| "of_thrown (UnprintableValue e) = NonErr"

text \<open>
  What a generation function throws to its caller. Each ends with
  \<open>if (error instanceof Error) throw new Error(prefix + error.message);
  throw new Error(unknown)\<close>: \<open>Wrapped e\<close> is the first, \<open>UnknownFailure\<close> the second,
  and \<open>Escaped e\<close> is what the template literal of the first throws when the message
  cannot be converted.
\<close>

datatype failure = Wrapped js_error | UnknownFailure | Escaped thrown

fun rethrow :: "gen_thrown + 'a \<Rightarrow> failure + 'a" where
  "rethrow (Inl (Err e)) = Inl (Wrapped e)"
| "rethrow (Inl (ErrUnprintable e)) = Inl (Escaped e)"
| "rethrow (Inl NonErr) = Inl UnknownFailure"
| "rethrow (Inr v) = Inr v"

text \<open>
  The surroundings of one call: whether the module variable \<open>openai\<close> already holds a
  client, the environment variable \<open>OPENAI_API_KEY\<close>, and the outcome of
  \<open>await client.chat.completions.create(...)\<close> followed by
  \<open>response.choices[0]?.message?.content\<close>: a thrown value, or the content (\<open>None\<close> for
  \<open>null\<close> and \<open>undefined\<close>). The request itself (the prompt built from the channel's
  templates) goes to the service and to \<open>console.log\<close> only; the reply is any value of
  this type.
\<close>

record openai_env =
  client_ready :: bool
  OPENAI_API_KEY :: "jsstring option"
  completion :: "thrown + jsstring option"

definition getOpenAIClient :: "openai_env \<Rightarrow> gen_thrown + unit" where
  "getOpenAIClient env =
     (if \<not> client_ready env then
        (case OPENAI_API_KEY env of
           None \<Rightarrow> Inl (Err ApiKeyMissing)
         | Some apiKey \<Rightarrow> if apiKey = [] then Inl (Err ApiKeyMissing) else Inr ())
      else Inr ())"

text \<open>
  From the client to the content: \<open>getOpenAIClient()\<close>, the awaited request, and
  \<open>if (!content) throw new Error(...)\<close> (the empty string is falsy too).
\<close>

definition request_content :: "openai_env \<Rightarrow> gen_thrown + jsstring" where
  "request_content env =
     (case getOpenAIClient env of
        Inl e \<Rightarrow> Inl e
      | Inr client \<Rightarrow>
          (case completion env of
             Inl t \<Rightarrow> Inl (of_thrown t)
           | Inr None \<Rightarrow> Inl (Err EmptyResponse)
           | Inr (Some content) \<Rightarrow>
               if content = [] then Inl (Err EmptyResponse) else Inr content))"

text \<open>A service that answers \<open>content\<close>.\<close>

definition replying :: "jsstring \<Rightarrow> openai_env" where
  "replying content =
     \<lparr>client_ready = True, OPENAI_API_KEY = None, completion = Inr (Some content)\<rparr>"

text \<open>
  \<open>WhiteSpace\<close> and \<open>LineTerminator\<close> of ECMAScript: what \<open>String.prototype.trim\<close>
  removes and what \<open>\s\<close> matches.
\<close>

definition isWhiteSpace :: "nat \<Rightarrow> bool" where
  "isWhiteSpace c =
     (c = 9 \<or> c = 10 \<or> c = 11 \<or> c = 12 \<or> c = 13 \<or> c = 32 \<or> c = 160 \<or> c = 5760 \<or>
      (8192 \<le> c \<and> c \<le> 8202) \<or> c = 8232 \<or> c = 8233 \<or> c = 8239 \<or> c = 8287 \<or>
      c = 12288 \<or> c = 65279)"

definition trim :: "jsstring \<Rightarrow> jsstring" where
  "trim s = rev (dropWhile isWhiteSpace (rev (dropWhile isWhiteSpace s)))"

section \<open>The text-generation pipeline: generateTitle\<close>

text \<open>The class \<open>["'\<guillemotleft>\<guillemotright>]\<close>: U+0022, U+0027, U+00AB, U+00BB.\<close>

definition isQuote :: "nat \<Rightarrow> bool" where
  "isQuote c = (c = 34 \<or> c = 39 \<or> c = 171 \<or> c = 187)"

text \<open>
  \<open>title.replace(/^["'\<guillemotleft>\<guillemotright>]|["'\<guillemotleft>\<guillemotright>]$/g, "")\<close>: the first alternative can match at
  index 0 only, the second at the last index only, and matches do not overlap.
\<close>

definition stripQuotes :: "jsstring \<Rightarrow> jsstring" where
  "stripQuotes s =
     (let s1 = (if s \<noteq> [] \<and> isQuote (hd s) then tl s else s)
      in if s1 \<noteq> [] \<and> isQuote (last s1) then butlast s1 else s1)"

text \<open>\<open>\w\<close> without the \<open>u\<close> and \<open>i\<close> flags: \<open>[A-Za-z0-9_]\<close>.\<close>

definition isWordChar :: "nat \<Rightarrow> bool" where
  "isWordChar c = ((48 \<le> c \<and> c \<le> 57) \<or> (65 \<le> c \<and> c \<le> 90) \<or> (97 \<le> c \<and> c \<le> 122) \<or> c = 95)"

definition isTagStart :: "nat \<Rightarrow> bool" where
  "isTagStart c = (c = 35 \<or> c = 64)"

text \<open>
  \<open>title.replace(/[#@]\w+/g, "")\<close>, scanning from the left: a match at the current index
  is \<open>#\<close> or \<open>@\<close> and the longest run of word characters after it (at least one); the
  scan goes on after the match.
\<close>

function stripTags :: "jsstring \<Rightarrow> jsstring" where
  "stripTags [] = []"
| "stripTags (c # cs) =
     (if isTagStart c \<and> cs \<noteq> [] \<and> isWordChar (hd cs)
      then stripTags (dropWhile isWordChar cs)
      else c # stripTags cs)"
  by pat_completeness auto
termination
  by (relation "measure length") (auto simp: length_dropWhile_le le_imp_less_Suc)

definition isHighSurrogate :: "nat \<Rightarrow> bool" where
  "isHighSurrogate c = (55296 \<le> c \<and> c \<le> 56319)"

definition isLowSurrogate :: "nat \<Rightarrow> bool" where
  "isLowSurrogate c = (56320 \<le> c \<and> c \<le> 57343)"

definition codePoint :: "nat \<Rightarrow> nat \<Rightarrow> nat" where
  "codePoint hi lo = 65536 + (hi - 55296) * 1024 + (lo - 56320)"

text \<open>The class \<open>[\u{1F300}-\u{1F9FF}]\<close>.\<close>

definition inEmojiRange :: "nat \<Rightarrow> bool" where
  "inEmojiRange cp = (127744 \<le> cp \<and> cp \<le> 129535)"

text \<open>
  \<open>title.replace(/[\u{1F300}-\u{1F9FF}]/gu, "")\<close>. With the \<open>u\<close> flag the string is read
  by code points: a high surrogate followed by a low one is one code point, any other
  code unit stands for itself (and is below the range).
\<close>

fun stripEmoji :: "jsstring \<Rightarrow> jsstring" where
  "stripEmoji (a # b # cs) =
     (if isHighSurrogate a \<and> isLowSurrogate b
      then (if inEmojiRange (codePoint a b) then stripEmoji cs else a # b # stripEmoji cs)
      else a # stripEmoji (b # cs))"
| "stripEmoji cs = cs"

text \<open>\<open>s.lastIndexOf(String.fromCharCode(c))\<close>: the last index of the code unit, or -1.\<close>

fun lastIndexOf :: "nat \<Rightarrow> jsstring \<Rightarrow> int" where
  "lastIndexOf c [] = - 1"
| "lastIndexOf c (x # xs) =
     (let r = lastIndexOf c xs
      in if 0 \<le> r then r + 1 else if x = c then 0 else - 1)"

text \<open>The three replacements on the trimmed content.\<close>

definition cleanTitle :: "jsstring \<Rightarrow> jsstring" where
  "cleanTitle content = stripEmoji (stripTags (stripQuotes (trim content)))"

text \<open>The block under \<open>if (title.length > 60)\<close>.\<close>

definition truncateTitle :: "jsstring \<Rightarrow> jsstring" where
  "truncateTitle title =
     (if length title > 60 then
        (let title1 = trim (take 60 title);
             lastSpace = lastIndexOf 32 title1
         in if lastSpace > 40 then take (nat lastSpace) title1 else title1)
      else title)"

definition generateTitle :: "openai_env \<Rightarrow> failure + jsstring" where
  "generateTitle env =
     rethrow
       (case request_content env of
          Inl e \<Rightarrow> Inl e
        | Inr content \<Rightarrow> Inr (truncateTitle (cleanTitle content)))"

section \<open>JSON.parse\<close>

text \<open>
  \<open>JSON.parse\<close> (ECMA-262, with the grammar of ECMA-404) as the source uses it: one
  argument, no reviver. \<open>None\<close> is the \<open>SyntaxError\<close> it throws. The text is cut into
  tokens, one code unit at a time, and the tokens drive a stack of the arrays and objects
  that are still open.
\<close>

datatype json_token =
    TLBrace | TRBrace | TLBracket | TRBracket | TColon | TComma
  | TString jsstring
  | TNumber int int
  | TTrue | TFalse | TNull

definition isDigit :: "nat \<Rightarrow> bool" where
  "isDigit c = (48 \<le> c \<and> c \<le> 57)"

text \<open>The value of a hexadecimal digit.\<close>

definition hexValue :: "nat \<Rightarrow> nat option" where
  "hexValue c =
     (if 48 \<le> c \<and> c \<le> 57 then Some (c - 48)
      else if 97 \<le> c \<and> c \<le> 102 then Some (c - 87)
      else if 65 \<le> c \<and> c \<le> 70 then Some (c - 55)
      else None)"

definition digitsValue :: "jsstring \<Rightarrow> nat" where
  "digitsValue ds = foldl (\<lambda>a d. 10 * a + (d - 48)) 0 ds"

text \<open>
  A JSON number: \<open>-?(0|[1-9][0-9]*)(\.[0-9]+)?([eE][+-]?[0-9]+)?\<close>, as mantissa and
  decimal exponent.
\<close>

definition parseExponent :: "jsstring \<Rightarrow> int option" where
  "parseExponent s =
     (if s = [] then Some 0
      else if hd s = 101 \<or> hd s = 69 then
        (let s1 = tl s;
             negative = (s1 \<noteq> [] \<and> hd s1 = 45);
             s2 = (if s1 \<noteq> [] \<and> (hd s1 = 45 \<or> hd s1 = 43) then tl s1 else s1)
         in if s2 \<noteq> [] \<and> list_all isDigit s2
            then Some ((if negative then - 1 else 1) * int (digitsValue s2))
            else None)
      else None)"

definition parseNumber :: "jsstring \<Rightarrow> (int \<times> int) option" where
  "parseNumber s =
     (let negative = (s \<noteq> [] \<and> hd s = 45);
          s1 = (if negative then tl s else s);
          ip = takeWhile isDigit s1;
          s2 = dropWhile isDigit s1;
          hasFraction = (s2 \<noteq> [] \<and> hd s2 = 46);
          fp = (if hasFraction then takeWhile isDigit (tl s2) else []);
          s3 = (if hasFraction then dropWhile isDigit (tl s2) else s2)
      in if ip = [] \<or> (length ip > 1 \<and> hd ip = 48) \<or> (hasFraction \<and> fp = []) then None
         else (case parseExponent s3 of
                 None \<Rightarrow> None
               | Some ex \<Rightarrow>
                   Some ((if negative then - 1 else 1) * int (digitsValue (ip @ fp)),
                         ex - int (length fp))))"

text \<open>
  The tokenizer's state: between tokens; inside a string (the code units read so far, last
  first); after a backslash; inside \<open>\uXXXX\<close> (with the digits' values read so far);
  inside a number; inside \<open>true\<close>, \<open>false\<close> or \<open>null\<close>.
\<close>

datatype lex_state =
    LStart
  | LString jsstring
  | LEscape jsstring
  | LUnicode jsstring "nat list"
  | LNumber jsstring
  | LWord jsstring

definition isJsonSpace :: "nat \<Rightarrow> bool" where
  "isJsonSpace c = (c = 9 \<or> c = 10 \<or> c = 13 \<or> c = 32)"

definition isNumberChar :: "nat \<Rightarrow> bool" where
  "isNumberChar c = (isDigit c \<or> c = 43 \<or> c = 45 \<or> c = 46 \<or> c = 101 \<or> c = 69)"

definition isLowerLetter :: "nat \<Rightarrow> bool" where
  "isLowerLetter c = (97 \<le> c \<and> c \<le> 122)"

text \<open>A code unit read between tokens: the tokens it completes and the next state.\<close>

definition lexStart :: "nat \<Rightarrow> (json_token list \<times> lex_state) option" where
  "lexStart c =
     (if isJsonSpace c then Some ([], LStart)
      else if c = 123 then Some ([TLBrace], LStart)
      else if c = 125 then Some ([TRBrace], LStart)
      else if c = 91 then Some ([TLBracket], LStart)
      else if c = 93 then Some ([TRBracket], LStart)
      else if c = 58 then Some ([TColon], LStart)
      else if c = 44 then Some ([TComma], LStart)
      else if c = 34 then Some ([], LString [])
      else if c = 45 \<or> isDigit c then Some ([], LNumber [c])
      else if isLowerLetter c then Some ([], LWord [c])
      else None)"

definition finishNumber :: "jsstring \<Rightarrow> json_token option" where
  "finishNumber acc =
     (case parseNumber (rev acc) of None \<Rightarrow> None | Some (m, e) \<Rightarrow> Some (TNumber m e))"

definition finishWord :: "jsstring \<Rightarrow> json_token option" where
  "finishWord acc =
     (if rev acc = ascii ''true'' then Some TTrue
      else if rev acc = ascii ''false'' then Some TFalse
      else if rev acc = ascii ''null'' then Some TNull
      else None)"

definition lexEscape :: "jsstring \<Rightarrow> nat \<Rightarrow> lex_state option" where
  "lexEscape acc c =
     (if c = 34 \<or> c = 92 \<or> c = 47 then Some (LString (c # acc))
      else if c = 98 then Some (LString (8 # acc))
      else if c = 102 then Some (LString (12 # acc))
      else if c = 110 then Some (LString (10 # acc))
      else if c = 114 then Some (LString (13 # acc))
      else if c = 116 then Some (LString (9 # acc))
      else if c = 117 then Some (LUnicode acc [])
      else None)"

definition lexUnicode :: "jsstring \<Rightarrow> nat list \<Rightarrow> nat \<Rightarrow> lex_state option" where
  "lexUnicode acc hs c =
     (case hexValue c of
        None \<Rightarrow> None
      | Some h \<Rightarrow>
          (if length hs = 3
           then Some (LString (foldl (\<lambda>a d. 16 * a + d) 0 (hs @ [h]) # acc))
           else Some (LUnicode acc (hs @ [h]))))"

text \<open>After a token that ends where another code unit begins (a number, a word).\<close>

definition lexAfter :: "json_token option \<Rightarrow> nat \<Rightarrow> (json_token list \<times> lex_state) option" where
  "lexAfter tok c =
     (case tok of
        None \<Rightarrow> None
      | Some t \<Rightarrow>
          (case lexStart c of None \<Rightarrow> None | Some (ts, st) \<Rightarrow> Some (t # ts, st)))"

definition lexStep :: "lex_state \<Rightarrow> nat \<Rightarrow> (json_token list \<times> lex_state) option" where
  "lexStep st c =
     (case st of
        LStart \<Rightarrow> lexStart c
      | LString acc \<Rightarrow>
          (if c = 34 then Some ([TString (rev acc)], LStart)
           else if c = 92 then Some ([], LEscape acc)
           else if c < 32 then None
           else Some ([], LString (c # acc)))
      | LEscape acc \<Rightarrow> map_option (Pair []) (lexEscape acc c)
      | LUnicode acc hs \<Rightarrow> map_option (Pair []) (lexUnicode acc hs c)
      | LNumber acc \<Rightarrow>
          (if isNumberChar c then Some ([], LNumber (c # acc))
           else lexAfter (finishNumber acc) c)
      | LWord acc \<Rightarrow>
          (if isLowerLetter c then Some ([], LWord (c # acc))
           else lexAfter (finishWord acc) c))"

definition lexEnd :: "lex_state \<Rightarrow> json_token list option" where
  "lexEnd st =
     (case st of
        LStart \<Rightarrow> Some []
      | LNumber acc \<Rightarrow> map_option (\<lambda>t. [t]) (finishNumber acc)
      | LWord acc \<Rightarrow> map_option (\<lambda>t. [t]) (finishWord acc)
      | _ \<Rightarrow> None)"

fun lex :: "lex_state \<Rightarrow> jsstring \<Rightarrow> json_token list option" where
  "lex st [] = lexEnd st"
| "lex st (c # cs) =
     (case lexStep st c of
        None \<Rightarrow> None
      | Some (ts, st') \<Rightarrow> map_option ((@) ts) (lex st' cs))"

text \<open>
  An array index (ECMA-262): the canonical decimal form of an integer below \<open>2^32 - 1\<close>.
  Such keys come first in an object's property order, in ascending order; the other keys
  follow in the order they were first written.
\<close>

definition arrayIndex :: "jsstring \<Rightarrow> nat option" where
  "arrayIndex k =
     (if k \<noteq> [] \<and> list_all isDigit k \<and> (length k = 1 \<or> hd k \<noteq> 48) \<and>
         digitsValue k < 4294967295
      then Some (digitsValue k) else None)"

fun insertIndexed :: "nat \<Rightarrow> jsstring \<Rightarrow> jsval \<Rightarrow> (jsstring \<times> jsval) list \<Rightarrow> (jsstring \<times> jsval) list"
  where
  "insertIndexed n k v [] = [(k, v)]"
| "insertIndexed n k v ((k', v') # ps) =
     (case arrayIndex k' of
        Some n' \<Rightarrow>
          if n' < n then (k', v') # insertIndexed n k v ps else (k, v) # (k', v') # ps
      | None \<Rightarrow> (k, v) # (k', v') # ps)"

text \<open>A member \<open>k: v\<close> of an object literal: a key written twice keeps its place and
  takes the later value.\<close>

definition defineProperty :: "jsstring \<Rightarrow> jsval \<Rightarrow> (jsstring \<times> jsval) list \<Rightarrow> (jsstring \<times> jsval) list"
  where
  "defineProperty k v ps =
     (if k \<in> fst ` set ps then map (\<lambda>(k', v'). if k' = k then (k', v) else (k', v')) ps
      else (case arrayIndex k of
              Some n \<Rightarrow> insertIndexed n k v ps
            | None \<Rightarrow> ps @ [(k, v)]))"

text \<open>An open array (its elements, last first) or an open object (its members and the
  key whose value is being read).\<close>

datatype json_frame =
    FArray "jsval list"
  | FObject "(jsstring \<times> jsval) list" jsstring

datatype parse_state =
    PValue
  | PArrayStart
  | PObjectStart
  | PKey
  | PColon
  | PAfterValue
  | PDone jsval

text \<open>A value is complete: it is the result, or goes into the innermost open container.\<close>

fun complete :: "jsval \<Rightarrow> json_frame list \<Rightarrow> parse_state \<times> json_frame list" where
  "complete v [] = (PDone v, [])"
| "complete v (FArray vs # fs) = (PAfterValue, FArray (v # vs) # fs)"
| "complete v (FObject ps k # fs) = (PAfterValue, FObject (defineProperty k v ps) k # fs)"

definition parseValueToken ::
  "bool \<Rightarrow> json_frame list \<Rightarrow> json_token \<Rightarrow> (parse_state \<times> json_frame list) option" where
  "parseValueToken mayClose fs t =
     (case t of
        TString s \<Rightarrow> Some (complete (JStr s) fs)
      | TNumber m e \<Rightarrow> Some (complete (JNum m e) fs)
      | TTrue \<Rightarrow> Some (complete (JBool True) fs)
      | TFalse \<Rightarrow> Some (complete (JBool False) fs)
      | TNull \<Rightarrow> Some (complete JNull fs)
      | TLBracket \<Rightarrow> Some (PArrayStart, FArray [] # fs)
      | TLBrace \<Rightarrow> Some (PObjectStart, FObject [] [] # fs)
      | TRBracket \<Rightarrow>
          (case fs of
             FArray vs # fs' \<Rightarrow> if mayClose then Some (complete (JArr (rev vs)) fs') else None
           | _ \<Rightarrow> None)
      | _ \<Rightarrow> None)"

definition parseKeyToken ::
  "bool \<Rightarrow> json_frame list \<Rightarrow> json_token \<Rightarrow> (parse_state \<times> json_frame list) option" where
  "parseKeyToken mayClose fs t =
     (case fs of
        FObject ps k # fs' \<Rightarrow>
          (case t of
             TString k' \<Rightarrow> Some (PColon, FObject ps k' # fs')
           | TRBrace \<Rightarrow> if mayClose then Some (complete (JObj ps) fs') else None
           | _ \<Rightarrow> None)
      | _ \<Rightarrow> None)"

definition parseAfterValue ::
  "json_frame list \<Rightarrow> json_token \<Rightarrow> (parse_state \<times> json_frame list) option" where
  "parseAfterValue fs t =
     (case fs of
        FArray vs # fs' \<Rightarrow>
          (case t of
             TComma \<Rightarrow> Some (PValue, fs)
           | TRBracket \<Rightarrow> Some (complete (JArr (rev vs)) fs')
           | _ \<Rightarrow> None)
      | FObject ps k # fs' \<Rightarrow>
          (case t of
             TComma \<Rightarrow> Some (PKey, fs)
           | TRBrace \<Rightarrow> Some (complete (JObj ps) fs')
           | _ \<Rightarrow> None)
      | [] \<Rightarrow> None)"

definition parseStep ::
  "parse_state \<Rightarrow> json_frame list \<Rightarrow> json_token \<Rightarrow> (parse_state \<times> json_frame list) option"
  where
  "parseStep st fs t =
     (case st of
        PValue \<Rightarrow> parseValueToken False fs t
      | PArrayStart \<Rightarrow> parseValueToken True fs t
      | PObjectStart \<Rightarrow> parseKeyToken True fs t
      | PKey \<Rightarrow> parseKeyToken False fs t
      | PColon \<Rightarrow> (case t of TColon \<Rightarrow> Some (PValue, fs) | _ \<Rightarrow> None)
      | PAfterValue \<Rightarrow> parseAfterValue fs t
      | PDone v \<Rightarrow> None)"

fun parseTokens :: "parse_state \<Rightarrow> json_frame list \<Rightarrow> json_token list \<Rightarrow> jsval option" where
  "parseTokens st fs [] = (case st of PDone v \<Rightarrow> Some v | _ \<Rightarrow> None)"
| "parseTokens st fs (t # ts) =
     (case parseStep st fs t of
        None \<Rightarrow> None
      | Some (st', fs') \<Rightarrow> parseTokens st' fs' ts)"

definition JSON_parse :: "jsstring \<Rightarrow> jsval option" where
  "JSON_parse text =
     (case lex LStart text of
        None \<Rightarrow> None
      | Some ts \<Rightarrow> parseTokens PValue [] ts)"

section \<open>Reading parsed values\<close>

text \<open>
  \<open>parsed\<close> and its parts have type \<open>any\<close>. Reading a property of \<open>null\<close> or
  \<open>undefined\<close> throws a \<open>TypeError\<close>; an object gives its own property or
  \<open>undefined\<close>; for the names the source reads (\<open>ideas\<close>, \<open>data\<close>, \<open>title\<close>,
  \<open>name\<close>, \<open>description\<close>, \<open>text\<close>, \<open>veo_prompt\<close>, \<open>veoPrompt\<close>, \<open>prompt\<close>,
  \<open>video_title\<close>, \<open>videoTitle\<close>) arrays, strings, numbers and booleans give
  \<open>undefined\<close>, as none of their prototypes has a property of such a name.
\<close>

definition ownProperty :: "jsval \<Rightarrow> jsstring \<Rightarrow> jsval" where
  "ownProperty v k =
     (case v of
        JObj ps \<Rightarrow> (case map_of ps k of None \<Rightarrow> JUndefined | Some x \<Rightarrow> x)
      | _ \<Rightarrow> JUndefined)"

definition getProp :: "jsval \<Rightarrow> jsstring \<Rightarrow> gen_thrown + jsval" where
  "getProp v k =
     (case v of
        JUndefined \<Rightarrow> Inl (Err TypeError)
      | JNull \<Rightarrow> Inl (Err TypeError)
      | _ \<Rightarrow> Inr (ownProperty v k))"

text \<open>
  Whether the number written \<open>m * 10^e\<close> is the double 0: it is when \<open>m = 0\<close>, and when
  its magnitude is at most \<open>2^-1075\<close>, half the smallest positive double (rounding to
  nearest, ties to even).
\<close>

definition numberIsZero :: "int \<Rightarrow> int \<Rightarrow> bool" where
  "numberIsZero m e =
     (m = 0 \<or> (e < 0 \<and> \<bar>m\<bar> * 2 ^ 1075 \<le> 10 ^ nat (- e)))"

text \<open>ToBoolean.\<close>

fun truthy :: "jsval \<Rightarrow> bool" where
  "truthy JUndefined = False"
| "truthy JNull = False"
| "truthy (JBool b) = b"
| "truthy (JNum m e) = (\<not> numberIsZero m e)"
| "truthy (JStr s) = (s \<noteq> [])"
| "truthy (JArr xs) = True"
| "truthy (JObj ps) = True"

text \<open>\<open>a || b\<close>, where evaluating \<open>a\<close> or \<open>b\<close> may throw: \<open>b\<close> counts only when \<open>a\<close>
  is falsy.\<close>

definition orElse :: "gen_thrown + jsval \<Rightarrow> gen_thrown + jsval \<Rightarrow> gen_thrown + jsval" where
  "orElse a b =
     (case a of
        Inl e \<Rightarrow> Inl e
      | Inr v \<Rightarrow> if truthy v then Inr v else b)"

text \<open>Sequencing of steps that may throw.\<close>

definition andThen :: "gen_thrown + 'a \<Rightarrow> ('a \<Rightarrow> gen_thrown + 'b) \<Rightarrow> gen_thrown + 'b" where
  "andThen r f = (case r of Inl e \<Rightarrow> Inl e | Inr v \<Rightarrow> f v)"

text \<open>\<open>Array.isArray\<close>, and the elements of an array.\<close>

fun isArray :: "jsval \<Rightarrow> bool" where
  "isArray (JArr xs) = True"
| "isArray v = False"

fun elements :: "jsval \<Rightarrow> jsval list" where
  "elements (JArr xs) = xs"
| "elements v = []"

text \<open>The decimal form of a number that is a non-negative integer, and of an integer.\<close>

fun decimal :: "nat \<Rightarrow> jsstring" where
  "decimal n = (if n < 10 then [48 + n] else decimal (n div 10) @ [48 + n mod 10])"

declare decimal.simps [simp del]

definition showInt :: "int \<Rightarrow> jsstring" where
  "showInt i = (if i < 0 then 45 # decimal (nat (- i)) else decimal (nat i))"

section \<open>The text-generation pipeline: generateIdeas\<close>

text \<open>
  \<open>interface Idea\<close>. The fields \<open>title\<close> and \<open>description\<close> are declared \<open>string\<close>, but
  hold whatever the parsed element held.
\<close>

record Idea =
  idea_id :: jsstring
  idea_title :: jsval
  idea_description :: jsval

text \<open>
  \<open>content.match(/\[[\s\S]*\]/)\<close>: the match starts at the first \<open>[\<close> and, the star being
  greedy, ends at the last \<open>]\<close> of the text; there is none when no \<open>]\<close> follows the
  first \<open>[\<close>.
\<close>

definition jsonMatch :: "jsstring \<Rightarrow> jsstring option" where
  "jsonMatch content =
     (let fromBracket = dropWhile (\<lambda>c. c \<noteq> 91) content
      in if fromBracket = [] then None
         else (let body = rev (dropWhile (\<lambda>c. c \<noteq> 93) (rev (tl fromBracket)))
               in if body = [] then None else Some (91 # body)))"

text \<open>
  \<open>try { parsed = JSON.parse(content) } catch { ... }\<close>: the second \<open>JSON.parse\<close> stands in
  the \<open>catch\<close> block, so its \<open>SyntaxError\<close> leaves the function's \<open>try\<close>.
\<close>

definition parseIdeasResponse :: "jsstring \<Rightarrow> gen_thrown + jsval" where
  "parseIdeasResponse content =
     (case JSON_parse content of
        Some parsed \<Rightarrow> Inr parsed
      | None \<Rightarrow>
          (case jsonMatch content of
             Some m \<Rightarrow>
               (case JSON_parse m of
                  Some parsed \<Rightarrow> Inr parsed
                | None \<Rightarrow> Inl (Err SyntaxError))
           | None \<Rightarrow> Inl (Err UnparseableResponse)))"

text \<open>
  \<open>Object.keys(parsed).find((key) => Array.isArray(parsed[key]))\<close>. The keys of a string
  are its indices and name single characters; numbers and booleans have no keys.
\<close>

definition findArrayKey :: "jsval \<Rightarrow> jsstring option" where
  "findArrayKey parsed =
     (case parsed of
        JObj ps \<Rightarrow> map_option fst (find (\<lambda>(k, v). isArray v) ps)
      | _ \<Rightarrow> None)"

text \<open>The chain that fills \<open>ideasArray\<close>; \<open>if (arrayKey)\<close> is false for the key \<open>""\<close>.\<close>

definition findIdeasArray :: "jsval \<Rightarrow> gen_thrown + jsval list" where
  "findIdeasArray parsed =
     (if isArray parsed then Inr (elements parsed)
      else andThen (getProp parsed (ascii ''ideas'')) (\<lambda>ideas.
        if truthy ideas \<and> isArray ideas then Inr (elements ideas)
        else andThen (getProp parsed (ascii ''data'')) (\<lambda>data.
          if truthy data \<and> isArray data then Inr (elements data)
          else (case findArrayKey parsed of
                  Some arrayKey \<Rightarrow>
                    if arrayKey \<noteq> []
                    then andThen (getProp parsed arrayKey) (\<lambda>v. Inr (elements v))
                    else Inl (Err IdeasArrayNotFound)
                | None \<Rightarrow> Inl (Err IdeasArrayNotFound)))))"

text \<open>\<open>xs.slice(0, count)\<close> for an integer \<open>count\<close>; a negative one counts from the end.\<close>

definition slice0 :: "int \<Rightarrow> 'a list \<Rightarrow> 'a list" where
  "slice0 count xs =
     (let len = int (length xs);
          final = (if count < 0 then max (len + count) 0 else min count len)
      in take (nat final) xs)"

text \<open>The word before the number in the synthesized title: U+0418 U+0434 U+0435 U+044F
  and a space.\<close>

definition ideaWord :: jsstring where
  "ideaWord = [1048, 1076, 1077, 1103, 32]"

text \<open>
  The callback of \<open>map\<close>; \<open>Date_now i\<close> is what \<open>Date.now()\<close> returns in the call for
  index \<open>i\<close>, and \<open>ideaId\<close> is the template \<open>`idea_${Date.now()}_${index}`\<close>.
\<close>

definition ideaId :: "(nat \<Rightarrow> int) \<Rightarrow> nat \<Rightarrow> jsstring" where
  "ideaId Date_now index =
     ascii ''idea_'' @ showInt (Date_now index) @ ascii ''_'' @ decimal index"

definition makeIdea :: "(nat \<Rightarrow> int) \<Rightarrow> nat \<Rightarrow> jsval \<Rightarrow> gen_thrown + Idea" where
  "makeIdea Date_now index item =
     andThen
       (orElse (getProp item (ascii ''title''))
          (orElse (getProp item (ascii ''name''))
             (Inr (JStr (ideaWord @ decimal (index + 1))))))
       (\<lambda>title.
          andThen
            (orElse (getProp item (ascii ''description''))
               (orElse (getProp item (ascii ''text'')) (Inr (JStr []))))
            (\<lambda>description.
               Inr \<lparr>idea_id = ideaId Date_now index,
                    idea_title = title,
                    idea_description = description\<rparr>))"

fun mapIdeas :: "(nat \<Rightarrow> int) \<Rightarrow> nat \<Rightarrow> jsval list \<Rightarrow> gen_thrown + Idea list" where
  "mapIdeas Date_now index [] = Inr []"
| "mapIdeas Date_now index (item # items) =
     andThen (makeIdea Date_now index item) (\<lambda>idea.
       andThen (mapIdeas Date_now (Suc index) items) (\<lambda>ideas. Inr (idea # ideas)))"

text \<open>\<open>generateIdeas\<close>; \<open>count\<close> is \<open>None\<close> when the caller leaves it out (default 5).\<close>

definition generateIdeas :: "openai_env \<Rightarrow> (nat \<Rightarrow> int) \<Rightarrow> int option \<Rightarrow> failure + Idea list" where
  "generateIdeas env Date_now count =
     rethrow
       (andThen (request_content env) (\<lambda>content.
        andThen (parseIdeasResponse content) (\<lambda>parsed.
        andThen (findIdeasArray parsed) (\<lambda>ideasArray.
        andThen (mapIdeas Date_now 0
                   (slice0 (case count of None \<Rightarrow> 5 | Some c \<Rightarrow> c) ideasArray)) (\<lambda>ideas.
          if length ideas = 0 then Inl (Err NoIdeasGenerated) else Inr ideas)))))"

section \<open>The text-generation pipeline: generateVeoPrompt\<close>

record VeoPromptResult =
  veoPrompt :: jsstring
  videoTitle :: jsstring

text \<open>The argument \<open>idea: { title: string; description: string }\<close>.\<close>

record idea_arg =
  arg_title :: jsstring
  arg_description :: jsstring

text \<open>The class \<open>["\s:]\<close>.\<close>

definition isSeparator :: "nat \<Rightarrow> bool" where
  "isSeparator c = (c = 34 \<or> isWhiteSpace c \<or> c = 58)"

text \<open>The first result among those of \<open>f\<close> on the elements, in their order.\<close>

fun firstSome :: "('a \<Rightarrow> 'b option) \<Rightarrow> 'a list \<Rightarrow> 'b option" where
  "firstSome f [] = None"
| "firstSome f (x # xs) = (case f x of Some y \<Rightarrow> Some y | None \<Rightarrow> firstSome f xs)"

text \<open>
  The rest of \<open>/key["\s:]+"([^"]+)"/\<close> after the key. \<open>["\s:]+\<close> takes \<open>k\<close> of the
  separators that follow the key, the most first; the quote after them is itself a
  separator, so \<open>k\<close> is below their number. The group is the run of code units up to
  the next quote, which must not be empty and must end at a quote.
\<close>

definition quotedAt :: "jsstring \<Rightarrow> nat \<Rightarrow> jsstring option" where
  "quotedAt rest k =
     (if k < length rest \<and> rest ! k = 34 then
        (let body = takeWhile (\<lambda>c. c \<noteq> 34) (drop (k + 1) rest)
         in if body \<noteq> [] \<and> k + 1 + length body < length rest then Some body else None)
      else None)"

definition quotedValue :: "jsstring \<Rightarrow> jsstring option" where
  "quotedValue rest =
     (let m = length (takeWhile isSeparator rest)
      in firstSome (quotedAt rest) (rev [1..<m]))"

text \<open>
  The rest of \<open>/key["\s:]+([^\n}]+)/\<close> after the key: the group starts after \<open>k\<close>
  separators, the most first, at a code unit that is neither a line feed nor \<open>}\<close>, and
  runs up to the next of these.
\<close>

definition unquotedAt :: "jsstring \<Rightarrow> nat \<Rightarrow> jsstring option" where
  "unquotedAt rest k =
     (if k < length rest \<and> rest ! k \<noteq> 10 \<and> rest ! k \<noteq> 125
      then Some (takeWhile (\<lambda>c. c \<noteq> 10 \<and> c \<noteq> 125) (drop k rest))
      else None)"

definition unquotedValue :: "jsstring \<Rightarrow> jsstring option" where
  "unquotedValue rest =
     (let m = length (takeWhile isSeparator rest)
      in firstSome (unquotedAt rest) (rev [1..<Suc m]))"

text \<open>The flag \<open>i\<close> on an ASCII pattern: letters match in either case.\<close>

definition upperAscii :: "nat \<Rightarrow> nat" where
  "upperAscii c = (if 97 \<le> c \<and> c \<le> 122 then c - 32 else c)"

definition matchesKey :: "jsstring \<Rightarrow> jsstring \<Rightarrow> bool" where
  "matchesKey key s =
     (length key \<le> length s \<and> map upperAscii (take (length key) s) = map upperAscii key)"

text \<open>\<open>content.match(re)\<close> for one of the two patterns: the leftmost index where the whole
  pattern matches; the result is the group.\<close>

fun matchField :: "(jsstring \<Rightarrow> jsstring option) \<Rightarrow> jsstring \<Rightarrow> jsstring \<Rightarrow> jsstring option"
  where
  "matchField valueOf key [] = None"
| "matchField valueOf key (c # cs) =
     (if matchesKey key (c # cs) then
        (case valueOf (drop (length key) (c # cs)) of
           Some v \<Rightarrow> Some v
         | None \<Rightarrow> matchField valueOf key cs)
      else matchField valueOf key cs)"

text \<open>\<open>content.match(quoted) || content.match(unquoted)\<close>\<close>

definition extractField :: "jsstring \<Rightarrow> jsstring \<Rightarrow> jsstring option" where
  "extractField key content =
     (case matchField quotedValue key content of
        Some v \<Rightarrow> Some v
      | None \<Rightarrow> matchField unquotedValue key content)"

definition parsePromptResponse :: "jsstring \<Rightarrow> gen_thrown + jsval" where
  "parsePromptResponse content =
     (case JSON_parse content of
        Some parsed \<Rightarrow> Inr parsed
      | None \<Rightarrow>
          (case (extractField (ascii ''veo_prompt'') content,
                 extractField (ascii ''video_title'') content) of
             (Some veoMatch, Some titleMatch) \<Rightarrow>
               Inr (JObj [(ascii ''veo_prompt'', JStr (trim veoMatch)),
                          (ascii ''video_title'', JStr (trim titleMatch))])
           | _ \<Rightarrow> Inl (Err UnparseableResponse)))"

text \<open>\<open>v.trim()\<close> on a value of type \<open>any\<close>: only a string has the method.\<close>

definition callTrim :: "jsval \<Rightarrow> gen_thrown + jsstring" where
  "callTrim v = (case v of JStr s \<Rightarrow> Inr (trim s) | _ \<Rightarrow> Inl (Err TypeError))"

text \<open>The two constants \<open>veoPrompt\<close> and \<open>videoTitle\<close> of the source.\<close>

definition resolvePrompt :: "jsval \<Rightarrow> gen_thrown + jsval" where
  "resolvePrompt parsed =
     orElse (getProp parsed (ascii ''veo_prompt''))
       (orElse (getProp parsed (ascii ''veoPrompt''))
          (orElse (getProp parsed (ascii ''prompt'')) (Inr (JStr []))))"

definition resolveTitle :: "jsval \<Rightarrow> idea_arg \<Rightarrow> gen_thrown + jsval" where
  "resolveTitle parsed idea =
     orElse (getProp parsed (ascii ''video_title''))
       (orElse (getProp parsed (ascii ''videoTitle''))
          (orElse (getProp parsed (ascii ''title'')) (Inr (JStr (arg_title idea)))))"

definition generateVeoPrompt :: "openai_env \<Rightarrow> idea_arg \<Rightarrow> failure + VeoPromptResult" where
  "generateVeoPrompt env idea =
     rethrow
       (andThen (request_content env) (\<lambda>content.
        andThen (parsePromptResponse content) (\<lambda>parsed.
        andThen (resolvePrompt parsed) (\<lambda>veoPrompt0.
        andThen (resolveTitle parsed idea) (\<lambda>videoTitle0.
          if \<not> truthy veoPrompt0 then Inl (Err VeoPromptMissing)
          else andThen (callTrim veoPrompt0) (\<lambda>p.
               andThen (callTrim videoTitle0) (\<lambda>t.
                 Inr \<lparr>veoPrompt = p, videoTitle = t\<rparr>)))))))"

section \<open>Inputs used in the examples\<close>

text \<open>A clock that stands still.\<close>

definition fixed_clock :: "nat \<Rightarrow> int" where
  "fixed_clock i = 1700000000000"

definition title_two_spaces :: jsstring where
  "title_two_spaces = replicate 45 97 @ [32] @ replicate 13 98 @ [32] @ replicate 20 99"

definition title_quoted_space :: jsstring where
  "title_quoted_space = [34, 32] @ replicate 78 97"

definition title_one_space :: jsstring where
  "title_one_space = replicate 45 97 @ [32] @ replicate 34 98"

definition two_ideas_text :: jsstring where
  \<open>two_ideas_text = ascii ''[{"title":"A","description":"B"},{"name":"C"}]''\<close>

definition six_numbers_text :: jsstring where
  "six_numbers_text = ascii ''[1,2,3,4,5,6]''"

definition chatty_text :: jsstring where
  \<open>chatty_text = ascii ''Sure! Here: [{"title":"A","description":"B"}] Thanks''\<close>

definition two_arrays_text :: jsstring where
  \<open>two_arrays_text = ascii ''Ideas: [{"title":"A"}] or [{"title":"B"}]''\<close>

definition empty_title_text :: jsstring where
  \<open>empty_title_text = ascii ''[{"title":"","description":"D"}]''\<close>

definition wrapped_ideas_text :: jsstring where
  \<open>wrapped_ideas_text =
     ascii ''{"ideas":[{"title":"A","description":"B"},7,{"name":"C","text":"D"},{"title":"E"}]}''\<close>

definition example_idea :: idea_arg where
  "example_idea = \<lparr>arg_title = ascii ''Idea title'', arg_description = ascii ''About cats''\<rparr>"

definition padded_prompt_text :: jsstring where
  \<open>padded_prompt_text = ascii ''{"veo_prompt":" p ","video_title":"t"}''\<close>

definition numeric_title_text :: jsstring where
  \<open>numeric_title_text = ascii ''{"veo_prompt":"p","video_title":5}''\<close>

definition null_title_text :: jsstring where
  \<open>null_title_text = ascii ''{"veo_prompt":"p","video_title":null}''\<close>

definition camel_case_text :: jsstring where
  \<open>camel_case_text = ascii ''{"veoPrompt":" a cat ","title":" Cat "}''\<close>

definition free_text_reply :: jsstring where
  \<open>free_text_reply = ascii ''Here: veo_prompt: "A cat" and video_title: "Cat"''\<close>

section \<open>Properties of the run ledger\<close>

lemma log_failure_parts:
  "logger (snd (log_failure prefix e s)) = logger s"
  "store (snd (log_failure prefix e s)) = store s"
  by (simp_all add: log_failure_def console_error_def split: sum.splits)

lemma updateRun_store:
  "store (snd (updateRun upd patch s)) = snd (upd (runId (logger s)) patch (store s))"
  by (simp add: updateRun_def try_catch_def updateRun_try_def log_failure_parts
      split: prod.splits sum.splits)

lemma finishRun_store:
  "store (snd (finishRun (Inr t) upd s)) =
     snd (upd (runId (logger s)) (finishRun_patch t (logger s)) (store s))"
proof -
  obtain r s' where u: "updateRun upd (finishRun_patch t (logger s)) s = (r, s')"
    by (cases "updateRun upd (finishRun_patch t (logger s)) s")
  with updateRun_store [of upd "finishRun_patch t (logger s)" s]
  have "store s' = snd (upd (runId (logger s)) (finishRun_patch t (logger s)) (store s))"
    by simp
  with u show ?thesis
    by (cases r) (simp_all add: finishRun_def try_catch_def finishRun_try_def log_failure_parts)
qed






text \<open>
  C1. The status \<open>finishRun\<close> computes from the ledger's counters is \<open>success\<close> when
  \<open>errorsCount = 0\<close>, \<open>error\<close> when \<open>errorsCount > 0\<close> and both \<open>jobsCreated\<close> and
  \<open>channelsProcessed\<close> are 0, and \<open>partial\<close> when \<open>errorsCount > 0\<close> and one of the two is
  positive. The three cases cover every triple of counters, so no other verdict exists.
  This status is the one in the patch. When the timestamp is obtained, the store after
  \<open>finishRun\<close> is the one \<open>updateAutomationRun\<close> leaves when called with the run's id and
  this patch; \<open>finishRun\<close> ends as its call of \<open>updateRun\<close> with the patch does when
  that call returns, and with its own \<open>catch\<close> block when that call throws.
\<close>

theorem finishRun_verdict:
  "(errorsCount l = 0 \<longrightarrow> finishRun_status l = status_success) \<and>
   (errorsCount l > 0 \<and> jobsCreated l = 0 \<and> channelsProcessed l = 0
      \<longrightarrow> finishRun_status l = status_error) \<and>
   (errorsCount l > 0 \<and> (jobsCreated l > 0 \<or> channelsProcessed l > 0)
      \<longrightarrow> finishRun_status l = status_partial) \<and>
   patch_status (finishRun_patch t l) = Some (finishRun_status l) \<and>
   store (snd (finishRun (Inr t) upd s)) =
     snd (upd (runId (logger s)) (finishRun_patch t (logger s)) (store s)) \<and>
   finishRun (Inr t) upd s =
     (case updateRun upd (finishRun_patch t (logger s)) s of
        (Inr u, s') \<Rightarrow> (Inr u, s')
      | (Inl e, s') \<Rightarrow>
          log_failure (ascii ''[AutomationLogger] Failed to finish run (non-fatal): '') e s')"
proof -
  have "finishRun (Inr t) upd s =
     (case updateRun upd (finishRun_patch t (logger s)) s of
        (Inr u, s') \<Rightarrow> (Inr u, s')
      | (Inl e, s') \<Rightarrow>
          log_failure (ascii ''[AutomationLogger] Failed to finish run (non-fatal): '') e s')"
    by (simp only: finishRun_def try_catch_def finishRun_try_def sum.case)
  moreover have "(errorsCount l = 0 \<longrightarrow> finishRun_status l = status_success) \<and>
   (errorsCount l > 0 \<and> jobsCreated l = 0 \<and> channelsProcessed l = 0
      \<longrightarrow> finishRun_status l = status_error) \<and>
   (errorsCount l > 0 \<and> (jobsCreated l > 0 \<or> channelsProcessed l > 0)
      \<longrightarrow> finishRun_status l = status_partial) \<and>
   patch_status (finishRun_patch t l) = Some (finishRun_status l)"
    by (auto simp: finishRun_status_def finishRun_patch_def)
  ultimately show ?thesis using finishRun_store [of t upd s] by blast
qed

theorem finishRun_verdict_witness:
  "finishRun_status (logger (example_state 0 4 7 ())) = status_success \<and>
   finishRun_status (logger (example_state 3 0 0 ())) = status_error \<and>
   finishRun_status (logger (example_state 1 2 2 ())) = status_partial \<and>
   finishRun_status (logger (example_state 5 1 0 ())) = status_partial \<and>
   map (\<lambda>(rid, p). (rid, patch_status p))
     (store (snd (finishRun (Inr 17) recording_update (example_state 3 0 0 [])))) =
     [(ascii ''run1'', Some status_error)]"
  using
    finishRun_verdict [of "logger (example_state 0 4 7 ())" 17 recording_update
      "example_state 3 0 0 []"]
    finishRun_verdict [of "logger (example_state 3 0 0 ())" 17 recording_update
      "example_state 3 0 0 []"]
    finishRun_verdict [of "logger (example_state 1 2 2 ())" 17 recording_update
      "example_state 3 0 0 []"]
    finishRun_verdict [of "logger (example_state 5 1 0 ())" 17 recording_update
      "example_state 3 0 0 []"]
  by (simp add: example_state_def recording_update_def)




text \<open>
  C3, as claimed: every \<open>logEvent\<close> call with level \<open>error\<close> adds one to \<open>errorsCount\<close>,
  also when the event cannot be stored. It fails: with a persistence service that throws,
  an \<open>error\<close> event leaves the counter at 2.
\<close>

theorem logEvent_error_count_counterexample:
  "level (example_event level_error) = level_error \<and>
   getErrorsCount (example_state 2 0 0 ()) = 2 \<and>
   getErrorsCount (snd (logEvent failing_create (example_event level_error)
                          (example_state 2 0 0 ()))) = 2 \<and>
   getErrorsCount (snd (logEvent failing_create (example_event level_error)
                          (example_state 2 0 0 ())))
     \<noteq> getErrorsCount (example_state 2 0 0 ()) + 1"
  by (simp add: example_event_def example_state_def getErrorsCount_def logEvent_def
      try_catch_def logEvent_try_def failing_create_def log_failure_def console_error_def)

text \<open>
  C3, amended: a \<open>logEvent\<close> call adds one to \<open>errorsCount\<close> when the level is \<open>error\<close>
  and \<open>createAutomationEvent\<close> completed; it leaves the counter unchanged when the level
  is \<open>info\<close> or \<open>warn\<close>, and when \<open>createAutomationEvent\<close> threw (whatever the level).
\<close>

theorem logEvent_error_count:
  "(level event = level_error \<and>
    fst (createAutomationEvent
           (AutomationEvent_in.extend event (AutomationEvent_doc.fields (runId (logger s))))
           (store s)) = Inr ()
      \<longrightarrow> getErrorsCount (snd (logEvent createAutomationEvent event s)) = getErrorsCount s + 1) \<and>
   (level event \<noteq> level_error
      \<longrightarrow> getErrorsCount (snd (logEvent createAutomationEvent event s)) = getErrorsCount s) \<and>
   (fst (createAutomationEvent
           (AutomationEvent_in.extend event (AutomationEvent_doc.fields (runId (logger s))))
           (store s)) \<noteq> Inr ()
      \<longrightarrow> getErrorsCount (snd (logEvent createAutomationEvent event s)) = getErrorsCount s)"
  by (auto simp: getErrorsCount_def logEvent_def try_catch_def logEvent_try_def
      log_failure_parts split: prod.splits sum.splits)

theorem logEvent_error_count_witness:
  "getErrorsCount (snd (logEvent ok_create (example_event level_error)
                          (example_state 2 0 0 ()))) = 3 \<and>
   getErrorsCount (snd (logEvent ok_create (example_event level_warn)
                          (example_state 2 0 0 ()))) = 2 \<and>
   getErrorsCount (snd (logEvent ok_create (example_event level_info)
                          (example_state 2 0 0 ()))) = 2 \<and>
   getErrorsCount (snd (logEvent failing_create (example_event level_error)
                          (example_state 2 0 0 ()))) = 2"
  using
    logEvent_error_count [of "example_event level_error" ok_create "example_state 2 0 0 ()"]
    logEvent_error_count [of "example_event level_warn" ok_create "example_state 2 0 0 ()"]
    logEvent_error_count [of "example_event level_info" ok_create "example_state 2 0 0 ()"]
    logEvent_error_count [of "example_event level_error" failing_create
      "example_state 2 0 0 ()"]
  by (simp add: example_event_def example_state_def getErrorsCount_def ok_create_def
      failing_create_def)

text \<open>
  C10. \<open>incrementJobsCreated\<close> adds one to \<open>jobsCreated\<close> and leaves \<open>errorsCount\<close> and
  \<open>channelsProcessed\<close> as they were; \<open>incrementChannelsProcessed\<close> adds one to
  \<open>channelsProcessed\<close> and leaves \<open>errorsCount\<close> and \<open>jobsCreated\<close> as they were;
  \<open>logEvent\<close> changes neither \<open>jobsCreated\<close> nor \<open>channelsProcessed\<close>.
\<close>

theorem counters_frame:
  "getJobsCreated (incrementJobsCreated s) = getJobsCreated s + 1 \<and>
   getErrorsCount (incrementJobsCreated s) = getErrorsCount s \<and>
   getChannelsProcessed (incrementJobsCreated s) = getChannelsProcessed s \<and>
   getChannelsProcessed (incrementChannelsProcessed s) = getChannelsProcessed s + 1 \<and>
   getErrorsCount (incrementChannelsProcessed s) = getErrorsCount s \<and>
   getJobsCreated (incrementChannelsProcessed s) = getJobsCreated s \<and>
   getJobsCreated (snd (logEvent createAutomationEvent event s)) = getJobsCreated s \<and>
   getChannelsProcessed (snd (logEvent createAutomationEvent event s)) = getChannelsProcessed s"
  by (auto simp: getJobsCreated_def getErrorsCount_def getChannelsProcessed_def
      incrementJobsCreated_def incrementChannelsProcessed_def logEvent_def try_catch_def
      logEvent_try_def log_failure_parts split: prod.splits sum.splits)

section \<open>Evaluating the model on concrete inputs\<close>

text \<open>
  The equations the simplifier unfolds to compute the model on a concrete input: one
  collection for each part of the pipeline.
\<close>

lemma replicate_numeral: "replicate (numeral k) x = x # replicate (pred_numeral k) x"
  by (simp add: numeral_eq_Suc)

lemmas title_eval =
  trim_def isWhiteSpace_def isQuote_def stripQuotes_def isWordChar_def isTagStart_def
  isHighSurrogate_def isLowSurrogate_def codePoint_def inEmojiRange_def cleanTitle_def
  truncateTitle_def generateTitle_def request_content_def getOpenAIClient_def replying_def
  ascii_def Let_def replicate_numeral

lemmas json_eval =
  JSON_parse_def lexStep_def lexStart_def lexEnd_def lexAfter_def lexEscape_def lexUnicode_def
  finishNumber_def finishWord_def parseNumber_def parseExponent_def digitsValue_def
  hexValue_def isDigit_def isJsonSpace_def isNumberChar_def isLowerLetter_def
  parseStep_def parseValueToken_def parseKeyToken_def parseAfterValue_def
  defineProperty_def arrayIndex_def ascii_def Let_def

lemmas ideas_eval =
  generateIdeas_def request_content_def getOpenAIClient_def replying_def andThen_def
  parseIdeasResponse_def jsonMatch_def findIdeasArray_def findArrayKey_def slice0_def
  makeIdea_def ideaId_def orElse_def getProp_def ownProperty_def showInt_def ideaWord_def
  decimal.simps fixed_clock_def

lemmas veo_eval =
  generateVeoPrompt_def request_content_def getOpenAIClient_def replying_def andThen_def
  parsePromptResponse_def extractField_def matchesKey_def upperAscii_def quotedValue_def
  quotedAt_def unquotedValue_def unquotedAt_def isSeparator_def isWhiteSpace_def trim_def
  resolvePrompt_def resolveTitle_def orElse_def getProp_def ownProperty_def callTrim_def
  numberIsZero_def example_idea_def

lemma request_content_replying:
  "content \<noteq> [] \<Longrightarrow> request_content (replying content) = Inr content"
  by (simp add: request_content_def getOpenAIClient_def replying_def)

section \<open>Properties of generateTitle\<close>

lemma lastIndexOf_ge: "- 1 \<le> lastIndexOf c xs"
  by (induction xs) (auto simp: Let_def)

lemma lastIndexOf_neg_iff: "lastIndexOf c xs < 0 \<longleftrightarrow> c \<notin> set xs"
  by (induction xs) (auto simp: Let_def)

lemma lastIndexOf_gt_iff: "int n < lastIndexOf c xs \<longleftrightarrow> c \<in> set (drop (Suc n) xs)"
proof (induction xs arbitrary: n)
  case Nil
  then show ?case by simp
next
  case (Cons x xs)
  show ?case
  proof (cases n)
    case 0
    with lastIndexOf_neg_iff [of c xs] show ?thesis by (auto simp: Let_def)
  next
    case (Suc m)
    with Cons.IH [of m] lastIndexOf_neg_iff [of c xs] show ?thesis
      by (auto simp: Let_def)
  qed
qed

lemma lastIndexOf_split:
  "0 \<le> lastIndexOf c xs \<Longrightarrow>
   \<exists>rest. xs = take (nat (lastIndexOf c xs)) xs @ c # rest \<and> c \<notin> set rest"
proof (induction xs)
  case Nil
  then show ?case by simp
next
  case (Cons x xs)
  show ?case
  proof (cases "0 \<le> lastIndexOf c xs")
    case True
    with Cons.IH obtain rest where
      r: "xs = take (nat (lastIndexOf c xs)) xs @ c # rest" "c \<notin> set rest" by blast
    from True have "nat (lastIndexOf c xs + 1) = Suc (nat (lastIndexOf c xs))" by simp
    with True r show ?thesis by (auto simp: Let_def)
  next
    case False
    with Cons.prems have "x = c" by (auto simp: Let_def split: if_splits)
    moreover from False have "c \<notin> set xs" using lastIndexOf_neg_iff [of c xs] by simp
    ultimately show ?thesis using False by (auto simp: Let_def)
  qed
qed

lemma trim_id:
  assumes "xs \<noteq> []" "\<not> isWhiteSpace (hd xs)" "\<not> isWhiteSpace (last xs)"
  shows "trim xs = xs"
proof -
  from assms have "dropWhile isWhiteSpace xs = xs" by (cases xs) auto
  moreover from assms have "dropWhile isWhiteSpace (rev xs) = rev xs"
    by (cases "rev xs") (auto simp: last_rev [symmetric] hd_rev)
  ultimately show ?thesis by (simp add: trim_def)
qed

lemma truncateTitle_cut:
  assumes "length title > 60" "32 \<in> set (drop 41 (trim (take 60 title)))"
  shows "\<exists>rest. trim (take 60 title) = truncateTitle title @ 32 # rest \<and> 32 \<notin> set rest \<and>
           length (truncateTitle title) > 40"
proof -
  let ?p = "trim (take 60 title)"
  let ?k = "lastIndexOf 32 ?p"
  from assms(2) have k: "40 < ?k" using lastIndexOf_gt_iff [of 40 32 ?p] by simp
  with assms(1) have t: "truncateTitle title = take (nat ?k) ?p"
    by (simp add: truncateTitle_def Let_def)
  from k lastIndexOf_split [of 32 ?p] obtain rest where
    r: "?p = take (nat ?k) ?p @ 32 # rest" "32 \<notin> set rest" by auto
  from r(1) have "length ?p = length (take (nat ?k) ?p) + Suc (length rest)"
    by (metis length_append length_Cons)
  then have "nat ?k < length ?p" by simp
  with k have "length (take (nat ?k) ?p) > 40" by simp
  with t r show ?thesis by auto
qed

lemma truncateTitle_keep:
  assumes "length title > 60" "32 \<notin> set (drop 41 (trim (take 60 title)))"
  shows "truncateTitle title = trim (take 60 title)"
proof -
  from assms(2) have "\<not> 40 < lastIndexOf 32 (trim (take 60 title))"
    using lastIndexOf_gt_iff [of 40 32 "trim (take 60 title)"] by simp
  with assms(1) show ?thesis by (simp add: truncateTitle_def Let_def)
qed

lemma truncateTitle_sixty:
  assumes "length title > 60" "\<not> isWhiteSpace (hd title)" "\<not> isWhiteSpace (title ! 59)"
    "32 \<notin> set (drop 41 (take 60 title))"
  shows "truncateTitle title = take 60 title" "length (truncateTitle title) = 60"
proof -
  from assms(1) have ne: "take 60 title \<noteq> []" by auto
  from assms(1) have "hd (take 60 title) = hd title" by (cases title) auto
  moreover have "last (take 60 title) = title ! 59"
  proof -
    from assms(1) have l: "length (take 60 title) = 60" by simp
    have "last (take 60 title) = take 60 title ! (length (take 60 title) - 1)"
      using ne by (rule last_conv_nth)
    also have "\<dots> = take 60 title ! 59" by (simp only: l) simp
    also have "\<dots> = title ! 59" by simp
    finally show ?thesis .
  qed
  ultimately have "trim (take 60 title) = take 60 title"
    using assms(2,3) ne by (simp add: trim_id)
  with assms(1,4) show "truncateTitle title = take 60 title"
    using truncateTitle_keep [of title] by simp
  with assms(1) show "length (truncateTitle title) = 60" by simp
qed

text \<open>
  C8, as claimed: a cleaned title longer than 60 characters is cut to its first 60
  characters and then, if that prefix has whitespace past character 40, at the last such
  whitespace; a raw 80-character title with no whitespace after position 40 comes back
  with exactly 60 characters. It fails twice. The cleaned title \<open>title_two_spaces\<close> has
  80 characters and its 60-character prefix ends with a space at index 59, so the claim's
  cut gives the first 59 characters; the code trims the prefix first and returns the
  first 45. The raw title \<open>title_quoted_space\<close> has 80 characters, with no whitespace
  from index 40 on, and is returned with 59 characters.
\<close>

theorem generateTitle_truncation_counterexample:
  "length title_two_spaces = 80 \<and>
   cleanTitle title_two_spaces = title_two_spaces \<and>
   take 60 title_two_spaces ! 59 = 32 \<and>
   take 59 title_two_spaces = replicate 45 97 @ [32] @ replicate 13 98 \<and>
   generateTitle (replying title_two_spaces) = Inr (replicate 45 97) \<and>
   length title_quoted_space = 80 \<and>
   filter isWhiteSpace (drop 40 title_quoted_space) = [] \<and>
   generateTitle (replying title_quoted_space) = Inr (replicate 59 97)"
proof -
  have "length title_two_spaces = 80" by (simp add: title_two_spaces_def)
  moreover have "cleanTitle title_two_spaces = title_two_spaces"
    by (simp add: title_two_spaces_def title_eval)
  moreover have "take 60 title_two_spaces ! 59 = 32"
    by (simp add: title_two_spaces_def replicate_numeral)
  moreover have "take 59 title_two_spaces = replicate 45 97 @ [32] @ replicate 13 98"
    by (simp add: title_two_spaces_def replicate_numeral)
  moreover have "generateTitle (replying title_two_spaces) = Inr (replicate 45 97)"
    by (simp add: title_two_spaces_def title_eval)
  moreover have "length title_quoted_space = 80" by (simp add: title_quoted_space_def)
  moreover have "filter isWhiteSpace (drop 40 title_quoted_space) = []"
    by (simp add: title_quoted_space_def title_eval)
  moreover have "generateTitle (replying title_quoted_space) = Inr (replicate 59 97)"
    by (simp add: title_quoted_space_def title_eval)
  ultimately show ?thesis by blast
qed

text \<open>
  C8, amended: for a cleaned title longer than 60 characters, \<open>generateTitle\<close> takes the
  first 60 characters and trims whitespace from both ends of this prefix. If the trimmed
  prefix has a space (U+0020) at an index above 40, the result is the trimmed prefix up
  to its last space (the result is followed by a space and no space comes later), and is
  longer than 40 characters; otherwise the result is the trimmed prefix. In particular,
  when the cleaned title neither starts with whitespace nor has whitespace at index 59,
  and its first 60 characters have no space at an index above 40, the result is its
  first 60 characters, exactly 60.
\<close>

theorem generateTitle_truncation:
  assumes "request_content env = Inr content" and "length (cleanTitle content) > 60"
  shows "\<exists>r. generateTitle env = Inr r \<and>
     (32 \<in> set (drop 41 (trim (take 60 (cleanTitle content)))) \<longrightarrow>
        (\<exists>rest. trim (take 60 (cleanTitle content)) = r @ 32 # rest \<and> 32 \<notin> set rest \<and>
                length r > 40)) \<and>
     (32 \<notin> set (drop 41 (trim (take 60 (cleanTitle content)))) \<longrightarrow>
        r = trim (take 60 (cleanTitle content))) \<and>
     (\<not> isWhiteSpace (hd (cleanTitle content)) \<and> \<not> isWhiteSpace (cleanTitle content ! 59) \<and>
      32 \<notin> set (drop 41 (take 60 (cleanTitle content))) \<longrightarrow>
        r = take 60 (cleanTitle content) \<and> length r = 60)"
proof -
  from assms(1) have "generateTitle env = Inr (truncateTitle (cleanTitle content))"
    by (simp add: generateTitle_def)
  with assms(2) show ?thesis
    using truncateTitle_cut [of "cleanTitle content"] truncateTitle_keep [of "cleanTitle content"]
      truncateTitle_sixty [of "cleanTitle content"]
    by auto
qed

theorem generateTitle_truncation_witness:
  "generateTitle (replying title_one_space) = Inr (replicate 45 97) \<and>
   generateTitle (replying (replicate 80 97)) = Inr (replicate 60 97)"
proof -
  have c1: "request_content (replying title_one_space) = Inr title_one_space"
    by (rule request_content_replying) (simp add: title_one_space_def)
  have e1: "cleanTitle title_one_space = title_one_space"
    by (simp add: title_one_space_def title_eval)
  have l1: "length (cleanTitle title_one_space) > 60"
    by (simp only: e1) (simp add: title_one_space_def)
  have p1: "trim (take 60 (cleanTitle title_one_space)) = replicate 45 97 @ 32 # replicate 14 98"
    by (simp only: e1) (simp add: title_one_space_def title_eval)
  have s1: "32 \<in> set (drop 41 (trim (take 60 (cleanTitle title_one_space))))"
    by (simp only: p1) (simp add: replicate_numeral)
  have n1: "32 \<notin> set (replicate 45 (97::nat))" "32 \<notin> set (replicate 14 (98::nat))" by simp_all
  from generateTitle_truncation [OF c1 l1] s1 obtain r rest where
    r: "generateTitle (replying title_one_space) = Inr r"
      "trim (take 60 (cleanTitle title_one_space)) = r @ 32 # rest" "32 \<notin> set rest"
    by blast
  from r(2) p1 have "r @ 32 # rest = replicate 45 97 @ 32 # replicate 14 98" by simp
  with r(3) n1 have "r = replicate 45 97"
    by (metis append_Cons_eq_iff)
  with r(1) have a: "generateTitle (replying title_one_space) = Inr (replicate 45 97)" by simp
  have c2: "request_content (replying (replicate 80 97)) = Inr (replicate 80 97)"
    by (rule request_content_replying) simp
  have e2: "cleanTitle (replicate 80 97) = replicate 80 97"
    by (simp add: title_eval)
  have l2: "length (cleanTitle (replicate 80 97)) > 60" by (simp only: e2) simp
  have h2: "\<not> isWhiteSpace (hd (cleanTitle (replicate 80 97)))"
    "\<not> isWhiteSpace (cleanTitle (replicate 80 97) ! 59)"
    "32 \<notin> set (drop 41 (take 60 (cleanTitle (replicate 80 97))))"
    by (simp_all only: e2) (simp_all add: isWhiteSpace_def)
  have t2: "take 60 (cleanTitle (replicate 80 97)) = replicate 60 97"
    by (simp only: e2) simp
  from generateTitle_truncation [OF c2 l2] h2 t2
  have b: "generateTitle (replying (replicate 80 97)) = Inr (replicate 60 97)" by auto
  from a b show ?thesis by simp
qed

text \<open>
  C9: the returned title contains no hashtag or mention token and no emoji. The code
  does not achieve it: a hashtag of Cyrillic letters (\<open>\w\<close> is ASCII only) is kept; a
  hashtag whose \<open>#\<close> is followed by an emoji appears once the emoji is removed, as the
  tags are removed first; a character outside U+1F300..U+1F9FF, such as U+2B50, is kept.
\<close>

theorem generateTitle_keeps_tags_and_emoji:
  "generateTitle (replying [35, 1082, 1086, 1090]) = Inr [35, 1082, 1086, 1090] \<and>
   generateTitle (replying ([35, 55357, 56832] @ ascii ''abc'')) = Inr (ascii ''#abc'') \<and>
   generateTitle (replying ([11088, 32] @ ascii ''star'')) = Inr ([11088, 32] @ ascii ''star'')"
  by (simp add: title_eval)

section \<open>Properties of generateIdeas\<close>

lemma digitsValue_snoc: "digitsValue (ds @ [d]) = 10 * digitsValue ds + (d - 48)"
  by (simp add: digitsValue_def)

lemma digitsValue_decimal: "digitsValue (decimal n) = n"
proof (induction n rule: decimal.induct)
  case (1 n)
  show ?case
  proof (cases "n < 10")
    case True
    then show ?thesis by (simp add: decimal.simps [of n] digitsValue_def)
  next
    case False
    with "1.IH" show ?thesis
      by (simp add: decimal.simps [of n] digitsValue_snoc)
  qed
qed

lemma decimal_inj: "decimal m = decimal n \<Longrightarrow> m = n"
  by (metis digitsValue_decimal)

lemma decimal_isDigit: "c \<in> set (decimal n) \<Longrightarrow> isDigit c"
proof (induction n rule: decimal.induct)
  case (1 n)
  show ?case
  proof (cases "n < 10")
    case True
    with "1.prems" show ?thesis by (simp add: decimal.simps [of n] isDigit_def)
  next
    case False
    with "1.prems" "1.IH" show ?thesis
      by (auto simp: decimal.simps [of n] isDigit_def)
  qed
qed

lemma decimal_no_underscore: "95 \<notin> set (decimal n)"
  using decimal_isDigit [of 95 n] by (auto simp: isDigit_def)

lemma suffix_after_last:
  assumes "xs @ c # us = ys @ c # vs" "c \<notin> set us" "c \<notin> set vs"
  shows "us = vs"
proof -
  have t: "takeWhile (\<lambda>x. x \<noteq> c) (rev (zs @ c # ws)) = rev ws" if "c \<notin> set ws" for zs ws
    using that by (auto simp: takeWhile_tail)
  from assms(1) have "takeWhile (\<lambda>x. x \<noteq> c) (rev (xs @ c # us)) =
                      takeWhile (\<lambda>x. x \<noteq> c) (rev (ys @ c # vs))" by simp
  with t [OF assms(2)] t [OF assms(3)] have "rev us = rev vs" by simp
  then show ?thesis by simp
qed

lemma ideaId_inj: "ideaId Date_now i = ideaId Date_now j \<Longrightarrow> i = j"
proof -
  assume "ideaId Date_now i = ideaId Date_now j"
  then have "(ascii ''idea_'' @ showInt (Date_now i)) @ 95 # decimal i =
             (ascii ''idea_'' @ showInt (Date_now j)) @ 95 # decimal j"
    by (simp add: ideaId_def ascii_def)
  then have "decimal i = decimal j"
    by (rule suffix_after_last) (rule decimal_no_underscore)+
  then show ?thesis by (rule decimal_inj)
qed

lemma makeIdea_id: "makeIdea Date_now i item = Inr idea \<Longrightarrow> idea_id idea = ideaId Date_now i"
  by (auto simp: makeIdea_def andThen_def split: sum.splits)

lemma mapIdeas_length: "mapIdeas Date_now i items = Inr ideas \<Longrightarrow> length ideas = length items"
  by (induction items arbitrary: i ideas) (auto simp: andThen_def split: sum.splits)

lemma mapIdeas_ids:
  "mapIdeas Date_now i items = Inr ideas \<Longrightarrow>
   map idea_id ideas = map (ideaId Date_now) [i ..< i + length items]"
proof (induction items arbitrary: i ideas)
  case Nil
  then show ?case by simp
next
  case (Cons item items)
  from Cons.prems obtain idea rest where
    s: "makeIdea Date_now i item = Inr idea" "mapIdeas Date_now (Suc i) items = Inr rest"
      "ideas = idea # rest"
    by (auto simp: andThen_def split: sum.splits)
  have e: "[i ..< i + length (item # items)] = i # [Suc i ..< Suc i + length items]"
  proof -
    have "i < Suc i + length items" by simp
    then have "[i ..< Suc i + length items] = i # [Suc i ..< Suc i + length items]"
      by (rule upt_conv_Cons)
    moreover have "i + length (item # items) = Suc i + length items" by simp
    ultimately show ?thesis by (simp only:)
  qed
  show ?case
    unfolding e s(3) using Cons.IH [OF s(2)] makeIdea_id [OF s(1)] by simp
qed

lemma mapIdeas_distinct:
  assumes "mapIdeas Date_now i items = Inr ideas"
  shows "distinct (map idea_id ideas)"
proof -
  have "inj_on (ideaId Date_now) (set [i ..< i + length items])"
    by (rule inj_onI) (rule ideaId_inj)
  then show ?thesis
    by (simp only: mapIdeas_ids [OF assms] distinct_map distinct_upt simp_thms)
qed

lemma slice0_length: "0 \<le> count \<Longrightarrow> int (length (slice0 count xs)) \<le> count"
  by (auto simp: slice0_def Let_def)

lemma slice0_all: "int (length xs) \<le> count \<Longrightarrow> slice0 count xs = xs"
  by (auto simp: slice0_def Let_def)

lemma generateIdeas_Inr:
  assumes "generateIdeas env Date_now count = Inr ideas"
  shows "\<exists>content parsed ideasArray.
           request_content env = Inr content \<and>
           parseIdeasResponse content = Inr parsed \<and>
           findIdeasArray parsed = Inr ideasArray \<and>
           mapIdeas Date_now 0 (slice0 (case count of None \<Rightarrow> 5 | Some c \<Rightarrow> c) ideasArray) = Inr ideas \<and>
           ideas \<noteq> []"
proof -
  let ?c = "case count of None \<Rightarrow> 5 | Some c \<Rightarrow> c"
  let ?body = "andThen (request_content env) (\<lambda>content.
        andThen (parseIdeasResponse content) (\<lambda>parsed.
        andThen (findIdeasArray parsed) (\<lambda>ideasArray.
        andThen (mapIdeas Date_now 0 (slice0 ?c ideasArray)) (\<lambda>ideas.
          if length ideas = 0 then Inl (Err NoIdeasGenerated) else Inr ideas))))"
  from assms have "rethrow ?body = Inr ideas" by (simp add: generateIdeas_def)
  then have "?body = Inr ideas" by (cases ?body rule: rethrow.cases) auto
  then show ?thesis
    by (auto simp: andThen_def split: sum.splits if_splits)
qed

text \<open>
  C4. For a count from 1 to 10, given by the caller or left out (then it is 5), whenever
  \<open>generateIdeas\<close> returns, it returns at least one and at most \<open>count\<close> ideas, and their
  ids are pairwise distinct. It never returns the empty list: when no idea is left after
  the mapping it throws the error "no ideas generated" (\<open>NoIdeasGenerated\<close>, rethrown
  with the function's prefix).
\<close>

theorem generateIdeas_count_and_ids:
  fixes count :: "int option"
  defines "c \<equiv> (case count of None \<Rightarrow> 5 | Some n \<Rightarrow> n)"
  assumes "1 \<le> c" and "c \<le> 10"
  shows "(generateIdeas env Date_now count = Inr ideas \<longrightarrow>
            1 \<le> length ideas \<and> int (length ideas) \<le> c \<and> distinct (map idea_id ideas)) \<and>
         generateIdeas env Date_now count \<noteq> Inr [] \<and>
         (request_content env = Inr content \<and> parseIdeasResponse content = Inr parsed \<and>
          findIdeasArray parsed = Inr ideasArray \<and>
          mapIdeas Date_now 0 (slice0 c ideasArray) = Inr [] \<longrightarrow>
            generateIdeas env Date_now count = Inl (Wrapped NoIdeasGenerated))"
proof (intro conjI impI)
  assume g: "generateIdeas env Date_now count = Inr ideas"
  from generateIdeas_Inr [OF g] obtain ideasArray where
    m: "mapIdeas Date_now 0 (slice0 c ideasArray) = Inr ideas" and ne: "ideas \<noteq> []"
    unfolding c_def by auto
  from ne show "1 \<le> length ideas" by (cases ideas) auto
  from mapIdeas_length [OF m] slice0_length [of c ideasArray] assms(2)
  show "int (length ideas) \<le> c" by simp
  from m show "distinct (map idea_id ideas)" by (rule mapIdeas_distinct)
next
  show "generateIdeas env Date_now count \<noteq> Inr []"
    using generateIdeas_Inr [of env Date_now count "[]"] by auto
next
  assume "request_content env = Inr content \<and> parseIdeasResponse content = Inr parsed \<and>
          findIdeasArray parsed = Inr ideasArray \<and>
          mapIdeas Date_now 0 (slice0 c ideasArray) = Inr []"
  then show "generateIdeas env Date_now count = Inl (Wrapped NoIdeasGenerated)"
    by (simp add: generateIdeas_def andThen_def c_def)
qed

theorem generateIdeas_count_and_ids_witness:
  "generateIdeas (replying two_ideas_text) fixed_clock (Some 2) =
     Inr [\<lparr>idea_id = ascii ''idea_1700000000000_0'', idea_title = JStr (ascii ''A''),
           idea_description = JStr (ascii ''B'')\<rparr>,
          \<lparr>idea_id = ascii ''idea_1700000000000_1'', idea_title = JStr (ascii ''C''),
           idea_description = JStr []\<rparr>] \<and>
   distinct [ascii ''idea_1700000000000_0'', ascii ''idea_1700000000000_1''] \<and>
   generateIdeas (replying (ascii ''[]'')) fixed_clock (Some 2) = Inl (Wrapped NoIdeasGenerated) \<and>
   (\<exists>ideas. generateIdeas (replying six_numbers_text) fixed_clock None = Inr ideas \<and>
            length ideas = 5 \<and> distinct (map idea_id ideas)) \<and>
   generateIdeas (replying (ascii ''[]'')) fixed_clock None = Inl (Wrapped NoIdeasGenerated)"
proof -
  let ?L = "[\<lparr>idea_id = ascii ''idea_1700000000000_0'', idea_title = JStr (ascii ''A''),
           idea_description = JStr (ascii ''B'')\<rparr>,
          \<lparr>idea_id = ascii ''idea_1700000000000_1'', idea_title = JStr (ascii ''C''),
           idea_description = JStr []\<rparr>]"
  have g: "generateIdeas (replying two_ideas_text) fixed_clock (Some 2) = Inr ?L"
    by (simp add: two_ideas_text_def ideas_eval json_eval)
  have e: "request_content (replying (ascii ''[]'')) = Inr (ascii ''[]'') \<and>
           parseIdeasResponse (ascii ''[]'') = Inr (JArr []) \<and>
           findIdeasArray (JArr []) = Inr [] \<and>
           mapIdeas fixed_clock 0 (slice0 c []) = Inr []" for c
    by (simp add: ideas_eval json_eval)
  have h: "(1::int) \<le> (case Some 2 of None \<Rightarrow> 5 | Some n \<Rightarrow> n)"
    "(case Some 2 of None \<Rightarrow> 5 | Some n \<Rightarrow> n) \<le> (10::int)" by simp_all
  have d: "(1::int) \<le> (case None of None \<Rightarrow> 5 | Some n \<Rightarrow> n)"
    "(case None of None \<Rightarrow> 5 | Some n \<Rightarrow> n) \<le> (10::int)" by simp_all
  from generateIdeas_count_and_ids [OF h, of "replying two_ideas_text" fixed_clock ?L
      "ascii ''[]''" "JArr []" "[]"] g
  have a: "distinct (map idea_id ?L)" by blast
  from generateIdeas_count_and_ids [OF h, of "replying (ascii ''[]'')" fixed_clock "[]"
      "ascii ''[]''" "JArr []" "[]"] e [of 2]
  have b: "generateIdeas (replying (ascii ''[]'')) fixed_clock (Some 2) =
             Inl (Wrapped NoIdeasGenerated)" by simp
  from generateIdeas_count_and_ids [OF d, of "replying (ascii ''[]'')" fixed_clock "[]"
      "ascii ''[]''" "JArr []" "[]"] e [of 5]
  have b': "generateIdeas (replying (ascii ''[]'')) fixed_clock None =
             Inl (Wrapped NoIdeasGenerated)" by simp
  have "\<exists>ideas. generateIdeas (replying six_numbers_text) fixed_clock None = Inr ideas \<and>
          length ideas = 5"
    by (simp add: six_numbers_text_def ideas_eval json_eval)
  then obtain ideas where
    s: "generateIdeas (replying six_numbers_text) fixed_clock None = Inr ideas" "length ideas = 5"
    by blast
  from generateIdeas_count_and_ids [OF d, of "replying six_numbers_text" fixed_clock ideas
      "ascii ''[]''" "JArr []" "[]"] s(1)
  have "distinct (map idea_id ideas)" by blast
  with s have c: "\<exists>ideas. generateIdeas (replying six_numbers_text) fixed_clock None = Inr ideas \<and>
            length ideas = 5 \<and> distinct (map idea_id ideas)" by blast
  from a b b' c g show ?thesis by simp
qed

lemma jsonMatch_None_iff:
  "jsonMatch content = None \<longleftrightarrow> 93 \<notin> set (tl (dropWhile (\<lambda>c. c \<noteq> 91) content))"
proof (cases "dropWhile (\<lambda>c. c \<noteq> 91) content = []")
  case True
  then show ?thesis by (simp add: jsonMatch_def del: dropWhile_eq_Nil_conv)
next
  case False
  have "dropWhile (\<lambda>c. c \<noteq> 93) (rev r) = [] \<longleftrightarrow> 93 \<notin> set r" for r :: jsstring
    by (auto simp: dropWhile_eq_Nil_conv)
  with False show ?thesis by (simp add: jsonMatch_def Let_def)
qed

lemma bracket_pair_iff:
  fixes content :: jsstring
  shows "93 \<in> set (tl (dropWhile (\<lambda>c. c \<noteq> 91) content)) \<longleftrightarrow>
     (\<exists>a b c. content = a @ 91 # b @ 93 # c)"
proof
  assume h: "93 \<in> set (tl (dropWhile (\<lambda>c. c \<noteq> 91) content))"
  then have ne: "dropWhile (\<lambda>c. c \<noteq> 91) content \<noteq> []"
    by (auto simp del: dropWhile_eq_Nil_conv)
  then have "hd (dropWhile (\<lambda>c. c \<noteq> 91) content) = 91"
    using hd_dropWhile [of "\<lambda>c. c \<noteq> 91" content] by simp
  with ne have f: "dropWhile (\<lambda>c. c \<noteq> 91) content =
                   91 # tl (dropWhile (\<lambda>c. c \<noteq> 91) content)"
    by (cases "dropWhile (\<lambda>c. c \<noteq> 91) content") auto
  from h obtain b c where r: "tl (dropWhile (\<lambda>c. c \<noteq> 91) content) = b @ 93 # c"
    by (auto dest: split_list)
  have "content = takeWhile (\<lambda>c. c \<noteq> 91) content @ dropWhile (\<lambda>c. c \<noteq> 91) content"
    by simp
  with f r have "content = takeWhile (\<lambda>c. c \<noteq> 91) content @ 91 # b @ 93 # c"
    by simp
  then show "\<exists>a b c. content = a @ 91 # b @ 93 # c" by blast
next
  assume "\<exists>a b c. content = a @ 91 # b @ 93 # c"
  then obtain a b c where d: "content = a @ 91 # b @ 93 # c" by blast
  show "93 \<in> set (tl (dropWhile (\<lambda>c. c \<noteq> 91) content))"
  proof (cases "91 \<in> set a")
    case True
    then have ne: "dropWhile (\<lambda>c. c \<noteq> 91) a \<noteq> []" by (auto simp: dropWhile_eq_Nil_conv)
    from True have "dropWhile (\<lambda>c. c \<noteq> 91) (a @ 91 # b @ 93 # c) =
                    dropWhile (\<lambda>c. c \<noteq> 91) a @ 91 # b @ 93 # c"
      by (intro dropWhile_append1) auto
    with ne d show ?thesis by simp
  next
    case False
    then have "dropWhile (\<lambda>c. c \<noteq> 91) (a @ 91 # b @ 93 # c) =
               dropWhile (\<lambda>c. c \<noteq> 91) (91 # b @ 93 # c)"
      by (intro dropWhile_append2) auto
    with d show ?thesis by simp
  qed
qed

lemma jsonMatch_first_to_last:
  fixes content :: jsstring
  assumes "content = pre @ 91 # mid @ 93 # post" "91 \<notin> set pre" "93 \<notin> set post"
  shows "jsonMatch content = Some (91 # mid @ [93])"
proof -
  from assms(2) have "dropWhile (\<lambda>c. c \<noteq> 91) (pre @ 91 # mid @ 93 # post) =
                      dropWhile (\<lambda>c. c \<noteq> 91) (91 # mid @ 93 # post)"
    by (intro dropWhile_append2) auto
  with assms(1) have f: "dropWhile (\<lambda>c. c \<noteq> 91) content = 91 # mid @ 93 # post" by simp
  from assms(3) have "dropWhile (\<lambda>c. c \<noteq> 93) (rev post @ 93 # rev mid) =
                      dropWhile (\<lambda>c. c \<noteq> 93) (93 # rev mid)"
    by (intro dropWhile_append2) auto
  then have "dropWhile (\<lambda>c. c \<noteq> 93) (rev (mid @ 93 # post)) = 93 # rev mid" by simp
  with f show ?thesis by (simp add: jsonMatch_def Let_def)
qed

lemma first_to_last_exists:
  fixes content :: jsstring
  assumes "\<exists>a b c. content = a @ 91 # b @ 93 # c"
  shows "\<exists>pre mid post. content = pre @ 91 # mid @ 93 # post \<and> 91 \<notin> set pre \<and> 93 \<notin> set post"
proof -
  let ?d = "dropWhile (\<lambda>c. c \<noteq> 91) content"
  from assms have h: "93 \<in> set (tl ?d)" by (simp add: bracket_pair_iff)
  then have ne: "?d \<noteq> []" by (auto simp del: dropWhile_eq_Nil_conv)
  then have "hd ?d = 91" using hd_dropWhile [of "\<lambda>c. c \<noteq> 91" content] by simp
  with ne have f: "?d = 91 # tl ?d" by (cases ?d) auto
  from h obtain mid post where r: "tl ?d = mid @ 93 # post" "93 \<notin> set post"
    by (auto dest: split_list_last)
  have "content = takeWhile (\<lambda>c. c \<noteq> 91) content @ ?d" by simp
  with f r(1) have "content = takeWhile (\<lambda>c. c \<noteq> 91) content @ 91 # mid @ 93 # post"
    by simp
  moreover have "91 \<notin> set (takeWhile (\<lambda>c. c \<noteq> 91) content)"
    using set_takeWhileD [of 91 "\<lambda>c. c \<noteq> 91" content] by auto
  ultimately show ?thesis using r(2) by blast
qed

lemma chatty_ideas:
  assumes "1 \<le> (case count of None \<Rightarrow> 5 | Some c \<Rightarrow> c)"
  shows "generateIdeas (replying chatty_text) Date_now count =
     Inr [\<lparr>idea_id = ascii ''idea_'' @ showInt (Date_now 0) @ ascii ''_0'',
           idea_title = JStr (ascii ''A''), idea_description = JStr (ascii ''B'')\<rparr>]"
proof -
  let ?item = "JObj [(ascii ''title'', JStr (ascii ''A'')),
                     (ascii ''description'', JStr (ascii ''B''))]"
  have "JSON_parse chatty_text = None" by (simp add: chatty_text_def json_eval)
  moreover have
    \<open>jsonMatch chatty_text = Some (ascii ''[{"title":"A","description":"B"}]'')\<close>
    by (simp add: chatty_text_def jsonMatch_def ascii_def)
  moreover have \<open>JSON_parse (ascii ''[{"title":"A","description":"B"}]'') = Some (JArr [?item])\<close>
    by (simp add: json_eval)
  ultimately have p: "parseIdeasResponse chatty_text = Inr (JArr [?item])"
    by (simp add: parseIdeasResponse_def)
  have c: "request_content (replying chatty_text) = Inr chatty_text"
    by (simp add: request_content_def getOpenAIClient_def replying_def chatty_text_def ascii_def)
  from assms have s: "slice0 (case count of None \<Rightarrow> 5 | Some c \<Rightarrow> c) [?item] = [?item]"
    by (intro slice0_all) simp
  have m: "mapIdeas Date_now 0 [?item] =
     Inr [\<lparr>idea_id = ascii ''idea_'' @ showInt (Date_now 0) @ ascii ''_0'',
           idea_title = JStr (ascii ''A''), idea_description = JStr (ascii ''B'')\<rparr>]"
    by (simp add: andThen_def makeIdea_def ideaId_def orElse_def getProp_def ownProperty_def
        decimal.simps ascii_def)
  show ?thesis
    by (simp add: generateIdeas_def andThen_def c p findIdeasArray_def s m del: mapIdeas.simps)
qed

text \<open>
  C5, as claimed: when the text is not JSON, the first bracket-delimited array substring
  is parsed instead. It fails: in \<open>two_arrays_text\<close> the first array,
  \<open>[{"title":"A"}]\<close>, starts at the first \<open>[\<close> and is valid JSON, but the match runs on
  to the last \<open>]\<close> of the text, is not valid JSON, and \<open>generateIdeas\<close> throws.
\<close>

theorem parseIdeasResponse_fallback_counterexample:
  \<open>JSON_parse two_arrays_text = None \<and>
   two_arrays_text = ascii ''Ideas: '' @ ascii ''[{"title":"A"}]'' @ ascii '' or [{"title":"B"}]'' \<and>
   JSON_parse (ascii ''[{"title":"A"}]'') =
     Some (JArr [JObj [(ascii ''title'', JStr (ascii ''A''))]]) \<and>
   jsonMatch two_arrays_text = Some (ascii ''[{"title":"A"}] or [{"title":"B"}]'') \<and>
   generateIdeas (replying two_arrays_text) fixed_clock None = Inl (Wrapped SyntaxError)\<close>
proof -
  have "JSON_parse two_arrays_text = None" by (simp add: two_arrays_text_def json_eval)
  moreover have \<open>two_arrays_text =
      ascii ''Ideas: '' @ ascii ''[{"title":"A"}]'' @ ascii '' or [{"title":"B"}]''\<close>
    by (simp add: two_arrays_text_def ascii_def)
  moreover have \<open>JSON_parse (ascii ''[{"title":"A"}]'') =
     Some (JArr [JObj [(ascii ''title'', JStr (ascii ''A''))]])\<close>
    by (simp add: json_eval)
  moreover have \<open>jsonMatch two_arrays_text = Some (ascii ''[{"title":"A"}] or [{"title":"B"}]'')\<close>
    by (simp add: two_arrays_text_def jsonMatch_def ascii_def)
  moreover have "generateIdeas (replying two_arrays_text) fixed_clock None =
      Inl (Wrapped SyntaxError)"
    by (simp add: two_arrays_text_def ideas_eval json_eval)
  ultimately show ?thesis by blast
qed

text \<open>
  C5, amended: when the text is not JSON, what is parsed instead is the substring from
  the first \<open>[\<close> of the text to its last \<open>]\<close>: the extraction gives what \<open>JSON.parse\<close>
  makes of this substring, and fails when it is not JSON. When no \<open>]\<close> follows a \<open>[\<close>
  in the text, the extraction fails; a text is of one kind or the other. For the text
  \<open>Sure! Here: [{"title":"A","description":"B"}] Thanks\<close> the result is exactly one idea,
  with title \<open>A\<close> and description \<open>B\<close> (for every count of at least 1, the default
  included).
\<close>

theorem parseIdeasResponse_fallback:
  "(JSON_parse content = None \<and> content = pre @ 91 # mid @ 93 # post \<and>
    91 \<notin> set pre \<and> 93 \<notin> set post \<longrightarrow>
      parseIdeasResponse content =
        (case JSON_parse (91 # mid @ [93]) of
           Some parsed \<Rightarrow> Inr parsed
         | None \<Rightarrow> Inl (Err SyntaxError))) \<and>
   (JSON_parse content = None \<and> \<not> (\<exists>a b c. content = a @ 91 # b @ 93 # c) \<longrightarrow>
      parseIdeasResponse content = Inl (Err UnparseableResponse)) \<and>
   ((\<exists>a b c. content = a @ 91 # b @ 93 # c) \<longrightarrow>
      (\<exists>pre mid post. content = pre @ 91 # mid @ 93 # post \<and>
                       91 \<notin> set pre \<and> 93 \<notin> set post)) \<and>
   (1 \<le> (case count of None \<Rightarrow> 5 | Some c \<Rightarrow> c) \<longrightarrow>
    generateIdeas (replying chatty_text) Date_now count =
     Inr [\<lparr>idea_id = ascii ''idea_'' @ showInt (Date_now 0) @ ascii ''_0'',
           idea_title = JStr (ascii ''A''), idea_description = JStr (ascii ''B'')\<rparr>])"
proof (intro conjI impI)
  assume h: "JSON_parse content = None \<and> content = pre @ 91 # mid @ 93 # post \<and>
    91 \<notin> set pre \<and> 93 \<notin> set post"
  then have n: "JSON_parse content = None" by blast
  from h have j: "jsonMatch content = Some (91 # mid @ [93])"
    using jsonMatch_first_to_last [of content pre mid post] by blast
  show "parseIdeasResponse content =
        (case JSON_parse (91 # mid @ [93]) of
           Some parsed \<Rightarrow> Inr parsed
         | None \<Rightarrow> Inl (Err SyntaxError))"
    by (simp only: parseIdeasResponse_def n j option.case)
next
  assume "JSON_parse content = None \<and> \<not> (\<exists>a b c. content = a @ 91 # b @ 93 # c)"
  then show "parseIdeasResponse content = Inl (Err UnparseableResponse)"
    using jsonMatch_None_iff [of content] bracket_pair_iff [of content]
    by (simp add: parseIdeasResponse_def)
next
  assume "\<exists>a b c. content = a @ 91 # b @ 93 # c"
  then show "\<exists>pre mid post. content = pre @ 91 # mid @ 93 # post \<and>
                       91 \<notin> set pre \<and> 93 \<notin> set post"
    by (rule first_to_last_exists)
next
  assume "1 \<le> (case count of None \<Rightarrow> 5 | Some c \<Rightarrow> c)"
  then show "generateIdeas (replying chatty_text) Date_now count =
     Inr [\<lparr>idea_id = ascii ''idea_'' @ showInt (Date_now 0) @ ascii ''_0'',
           idea_title = JStr (ascii ''A''), idea_description = JStr (ascii ''B'')\<rparr>]"
    by (rule chatty_ideas)
qed

theorem parseIdeasResponse_fallback_witness:
  \<open>JSON_parse chatty_text = None \<and>
   chatty_text = ascii ''Sure! Here: '' @ 91 # ascii ''{"title":"A","description":"B"}'' @
                   93 # ascii '' Thanks'' \<and>
   parseIdeasResponse chatty_text =
     Inr (JArr [JObj [(ascii ''title'', JStr (ascii ''A'')),
                      (ascii ''description'', JStr (ascii ''B''))]]) \<and>
   generateIdeas (replying chatty_text) fixed_clock None =
     Inr [\<lparr>idea_id = ascii ''idea_1700000000000_0'',
           idea_title = JStr (ascii ''A''), idea_description = JStr (ascii ''B'')\<rparr>] \<and>
   JSON_parse (ascii ''no ideas ] ['') = None \<and>
   parseIdeasResponse (ascii ''no ideas ] ['') = Inl (Err UnparseableResponse)\<close>
proof -
  have n: "JSON_parse chatty_text = None" by (simp add: chatty_text_def json_eval)
  have d: \<open>chatty_text = ascii ''Sure! Here: '' @ 91 # ascii ''{"title":"A","description":"B"}'' @
                   93 # ascii '' Thanks''\<close>
    by (simp add: chatty_text_def ascii_def)
  have b: "91 \<notin> set (ascii ''Sure! Here: '')" "93 \<notin> set (ascii '' Thanks'')"
    by (simp_all add: ascii_def)
  have p: \<open>JSON_parse (91 # ascii ''{"title":"A","description":"B"}'' @ [93]) =
    Some (JArr [JObj [(ascii ''title'', JStr (ascii ''A'')),
                      (ascii ''description'', JStr (ascii ''B''))]])\<close>
    by (simp add: json_eval)
  have i: "ascii ''idea_'' @ showInt (fixed_clock 0) @ ascii ''_0'' = ascii ''idea_1700000000000_0''"
    by (simp add: fixed_clock_def showInt_def decimal.simps ascii_def)
  have n2: "JSON_parse (ascii ''no ideas ] ['') = None" by (simp add: json_eval)
  have "93 \<notin> set (tl (dropWhile (\<lambda>c. c \<noteq> 91) (ascii ''no ideas ] ['')))"
    by (simp add: ascii_def)
  then have x: "\<not> (\<exists>a b c. ascii ''no ideas ] ['' = a @ 91 # b @ 93 # c)"
    by (simp add: bracket_pair_iff)
  from parseIdeasResponse_fallback [of chatty_text "ascii ''Sure! Here: ''"
      \<open>ascii ''{"title":"A","description":"B"}''\<close> "ascii '' Thanks''" None fixed_clock] n d b p i
  have a: \<open>parseIdeasResponse chatty_text =
     Inr (JArr [JObj [(ascii ''title'', JStr (ascii ''A'')),
                      (ascii ''description'', JStr (ascii ''B''))]]) \<and>
   generateIdeas (replying chatty_text) fixed_clock None =
     Inr [\<lparr>idea_id = ascii ''idea_1700000000000_0'',
           idea_title = JStr (ascii ''A''), idea_description = JStr (ascii ''B'')\<rparr>]\<close>
    by simp
  from parseIdeasResponse_fallback [of "ascii ''no ideas ] [''" "[]" "[]" "[]" None fixed_clock] n2 x
  have c: "parseIdeasResponse (ascii ''no ideas ] ['') = Inl (Err UnparseableResponse)"
    by blast
  from n d a n2 c show ?thesis by blast
qed

lemma getProp_defined:
  "parsed \<noteq> JNull \<Longrightarrow> parsed \<noteq> JUndefined \<Longrightarrow> getProp parsed k = Inr (ownProperty parsed k)"
  by (cases parsed) (auto simp: getProp_def)

lemma makeIdea_defined:
  assumes "item \<noteq> JNull" "item \<noteq> JUndefined"
  shows "makeIdea Date_now i item =
     Inr \<lparr>idea_id = ideaId Date_now i,
          idea_title =
            (if truthy (ownProperty item (ascii ''title'')) then ownProperty item (ascii ''title'')
             else if truthy (ownProperty item (ascii ''name'')) then ownProperty item (ascii ''name'')
             else JStr (ideaWord @ decimal (i + 1))),
          idea_description =
            (if truthy (ownProperty item (ascii ''description''))
             then ownProperty item (ascii ''description'')
             else if truthy (ownProperty item (ascii ''text'')) then ownProperty item (ascii ''text'')
             else JStr [])\<rparr>"
proof -
  have "getProp item k = Inr (ownProperty item k)" for k
    using assms by (rule getProp_defined)
  then show ?thesis by (simp add: makeIdea_def orElse_def andThen_def)
qed

lemma makeIdea_Inr:
  assumes "makeIdea Date_now i item = Inr idea"
  shows "item \<noteq> JNull \<and> item \<noteq> JUndefined"
proof -
  have "makeIdea Date_now i JNull = Inl (Err TypeError)"
    by (simp add: makeIdea_def getProp_def orElse_def andThen_def)
  moreover have "makeIdea Date_now i JUndefined = Inl (Err TypeError)"
    by (simp add: makeIdea_def getProp_def orElse_def andThen_def)
  ultimately show ?thesis using assms by auto
qed

lemma mapIdeas_nth:
  "mapIdeas Date_now k items = Inr ideas \<Longrightarrow>
     \<forall>i < length items. makeIdea Date_now (k + i) (items ! i) = Inr (ideas ! i)"
proof (induction items arbitrary: k ideas)
  case Nil
  then show ?case by simp
next
  case (Cons item items)
  from Cons.prems obtain idea rest where
    i: "makeIdea Date_now k item = Inr idea" and
    r: "mapIdeas Date_now (Suc k) items = Inr rest" and
    e: "ideas = idea # rest"
    by (auto simp: andThen_def split: sum.splits)
  from Cons.IH [OF r]
  have h: "\<forall>i < length items. makeIdea Date_now (Suc k + i) (items ! i) = Inr (rest ! i)" .
  show ?case
  proof (intro allI impI)
    fix j assume "j < length (item # items)"
    then show "makeIdea Date_now (k + j) ((item # items) ! j) = Inr (ideas ! j)"
      using i h e by (cases j) auto
  qed
qed

lemma mapIdeas_defined:
  assumes "\<forall>item \<in> set items. item \<noteq> JNull \<and> item \<noteq> JUndefined"
  shows "\<exists>ideas. mapIdeas Date_now k items = Inr ideas"
  using assms
proof (induction items arbitrary: k)
  case Nil
  then show ?case by simp
next
  case (Cons item items)
  from Cons.prems have "item \<noteq> JNull" "item \<noteq> JUndefined" by simp_all
  from makeIdea_defined [OF this] obtain idea where i: "makeIdea Date_now k item = Inr idea"
    by blast
  from Cons.prems have "\<forall>item \<in> set items. item \<noteq> JNull \<and> item \<noteq> JUndefined" by simp
  from Cons.IH [OF this, of "Suc k"] obtain rest where
    r: "mapIdeas Date_now (Suc k) items = Inr rest" by blast
  from i r show ?case by (simp add: andThen_def)
qed

lemma slice0_nth: "i < length (slice0 count xs) \<Longrightarrow> slice0 count xs ! i = xs ! i"
  by (simp add: slice0_def Let_def)

lemma slice0_take: "0 \<le> count \<Longrightarrow> slice0 count xs = take (nat count) xs"
  by (simp add: slice0_def Let_def min_def)

text \<open>
  C6, as claimed: title and description are copied verbatim whenever the fields are
  present. It fails: the one element of \<open>empty_title_text\<close> has a title field, the
  empty string, and the idea's title is the synthesized one (U+0418 U+0434 U+0435 U+044F,
  a space and \<open>1\<close>).
\<close>

theorem generateIdeas_fields_counterexample:
  \<open>JSON_parse empty_title_text =
     Some (JArr [JObj [(ascii ''title'', JStr []), (ascii ''description'', JStr (ascii ''D''))]]) \<and>
   generateIdeas (replying empty_title_text) fixed_clock (Some 5) =
     Inr [\<lparr>idea_id = ascii ''idea_1700000000000_0'',
           idea_title = JStr ([1048, 1076, 1077, 1103, 32] @ ascii ''1''),
           idea_description = JStr (ascii ''D'')\<rparr>]\<close>
proof -
  have "JSON_parse empty_title_text =
     Some (JArr [JObj [(ascii ''title'', JStr []), (ascii ''description'', JStr (ascii ''D''))]])"
    by (simp add: empty_title_text_def json_eval)
  moreover have "generateIdeas (replying empty_title_text) fixed_clock (Some 5) =
     Inr [\<lparr>idea_id = ascii ''idea_1700000000000_0'',
           idea_title = JStr ([1048, 1076, 1077, 1103, 32] @ ascii ''1''),
           idea_description = JStr (ascii ''D'')\<rparr>]"
    by (simp add: empty_title_text_def ideas_eval json_eval)
  ultimately show ?thesis by blast
qed

text \<open>
  C6, amended. Let \<open>c\<close> be the count (5 when it is left out) and \<open>ideasArray\<close> the array
  the extraction finds: the parsed value itself, or the array under \<open>ideas\<close>, under
  \<open>data\<close> or under the first key that holds an array (\<open>findIdeasArray\<close>).

  \<^item> Whenever the extraction returns ideas, there are as many as the elements of
    \<open>ideasArray.slice(0, c)\<close>, at least one, and the idea at index \<open>i\<close> comes from the
    element at index \<open>i\<close>: its title is the element's \<open>title\<close> field when that is truthy
    (present and not empty), else its \<open>name\<close> field when that is truthy, else the
    synthesized string \<open>ideaWord\<close> followed by \<open>i + 1\<close> in decimal; its description is the
    \<open>description\<close> field when truthy, else the \<open>text\<close> field when truthy, else the empty
    string. An element that is not an object has none of the fields. So a field that is
    present and truthy is copied verbatim.
  \<^item> The extraction does return ideas when the slice is not empty and none of its elements
    is \<open>null\<close>.
  \<^item> For \<open>0 \<le> c\<close> the slice is the first \<open>c\<close> elements, and all of them when there are at
    most \<open>c\<close>: an array of N elements that are not \<open>null\<close>, \<open>1 \<le> N \<le> c\<close>, gives exactly N
    ideas.
\<close>

theorem generateIdeas_fields:
  fixes count :: "int option"
  defines "c \<equiv> (case count of None \<Rightarrow> 5 | Some n \<Rightarrow> n)"
  shows
   "(generateIdeas env Date_now count = Inr ideas \<longrightarrow>
       (\<exists>content parsed ideasArray.
          request_content env = Inr content \<and> parseIdeasResponse content = Inr parsed \<and>
          findIdeasArray parsed = Inr ideasArray \<and>
          ideas \<noteq> [] \<and> length ideas = length (slice0 c ideasArray) \<and>
          (\<forall>i < length ideas.
             idea_title (ideas ! i) =
               (if truthy (ownProperty (ideasArray ! i) (ascii ''title''))
              then ownProperty (ideasArray ! i) (ascii ''title'')
              else if truthy (ownProperty (ideasArray ! i) (ascii ''name''))
              then ownProperty (ideasArray ! i) (ascii ''name'')
              else JStr (ideaWord @ decimal (i + 1))) \<and>
             idea_description (ideas ! i) =
               (if truthy (ownProperty (ideasArray ! i) (ascii ''description''))
              then ownProperty (ideasArray ! i) (ascii ''description'')
              else if truthy (ownProperty (ideasArray ! i) (ascii ''text''))
              then ownProperty (ideasArray ! i) (ascii ''text'')
              else JStr [])))) \<and>
    (request_content env = Inr content \<and> parseIdeasResponse content = Inr parsed \<and>
     findIdeasArray parsed = Inr items \<and> slice0 c items \<noteq> [] \<and>
     (\<forall>item \<in> set (slice0 c items). item \<noteq> JNull \<and> item \<noteq> JUndefined) \<longrightarrow>
       (\<exists>ideas. generateIdeas env Date_now count = Inr ideas)) \<and>
    (0 \<le> c \<longrightarrow> slice0 c items = take (nat c) items) \<and>
    (request_content env = Inr content \<and> parseIdeasResponse content = Inr parsed \<and>
     findIdeasArray parsed = Inr items \<and> 1 \<le> length items \<and> int (length items) \<le> c \<and>
     (\<forall>item \<in> set items. item \<noteq> JNull \<and> item \<noteq> JUndefined) \<longrightarrow>
       (\<exists>ideas. generateIdeas env Date_now count = Inr ideas \<and> length ideas = length items))"
proof (intro conjI impI)
  assume g: "generateIdeas env Date_now count = Inr ideas"
  from generateIdeas_Inr [OF g] obtain content parsed ideasArray where
    c: "request_content env = Inr content" and p: "parseIdeasResponse content = Inr parsed" and
    f: "findIdeasArray parsed = Inr ideasArray" and
    m: "mapIdeas Date_now 0 (slice0 c ideasArray) = Inr ideas" and ne: "ideas \<noteq> []"
    unfolding c_def by blast
  from mapIdeas_length [OF m] have l: "length ideas = length (slice0 c ideasArray)" .
  have r: "idea_title (ideas ! i) =
               (if truthy (ownProperty (ideasArray ! i) (ascii ''title''))
              then ownProperty (ideasArray ! i) (ascii ''title'')
              else if truthy (ownProperty (ideasArray ! i) (ascii ''name''))
              then ownProperty (ideasArray ! i) (ascii ''name'')
              else JStr (ideaWord @ decimal (i + 1))) \<and>
             idea_description (ideas ! i) =
               (if truthy (ownProperty (ideasArray ! i) (ascii ''description''))
              then ownProperty (ideasArray ! i) (ascii ''description'')
              else if truthy (ownProperty (ideasArray ! i) (ascii ''text''))
              then ownProperty (ideasArray ! i) (ascii ''text'')
              else JStr [])" if "i < length ideas" for i
  proof -
    from that l have il: "i < length (slice0 c ideasArray)" by simp
    with mapIdeas_nth [OF m]
    have mk: "makeIdea Date_now i (slice0 c ideasArray ! i) = Inr (ideas ! i)" by simp
    from il have n: "slice0 c ideasArray ! i = ideasArray ! i" by (rule slice0_nth)
    from mk n have mk': "makeIdea Date_now i (ideasArray ! i) = Inr (ideas ! i)" by simp
    from makeIdea_Inr [OF mk'] have "ideasArray ! i \<noteq> JNull" "ideasArray ! i \<noteq> JUndefined"
      by simp_all
    from makeIdea_defined [OF this, of Date_now i] mk'
    have "ideas ! i = \<lparr>idea_id = ideaId Date_now i,
          idea_title =
               (if truthy (ownProperty (ideasArray ! i) (ascii ''title''))
              then ownProperty (ideasArray ! i) (ascii ''title'')
              else if truthy (ownProperty (ideasArray ! i) (ascii ''name''))
              then ownProperty (ideasArray ! i) (ascii ''name'')
              else JStr (ideaWord @ decimal (i + 1))),
          idea_description =
               (if truthy (ownProperty (ideasArray ! i) (ascii ''description''))
              then ownProperty (ideasArray ! i) (ascii ''description'')
              else if truthy (ownProperty (ideasArray ! i) (ascii ''text''))
              then ownProperty (ideasArray ! i) (ascii ''text'')
              else JStr [])\<rparr>"
      by simp
    then show ?thesis by simp
  qed
  from c p f ne l r
  show "\<exists>content parsed ideasArray.
          request_content env = Inr content \<and> parseIdeasResponse content = Inr parsed \<and>
          findIdeasArray parsed = Inr ideasArray \<and>
          ideas \<noteq> [] \<and> length ideas = length (slice0 c ideasArray) \<and>
          (\<forall>i < length ideas.
             idea_title (ideas ! i) =
               (if truthy (ownProperty (ideasArray ! i) (ascii ''title''))
              then ownProperty (ideasArray ! i) (ascii ''title'')
              else if truthy (ownProperty (ideasArray ! i) (ascii ''name''))
              then ownProperty (ideasArray ! i) (ascii ''name'')
              else JStr (ideaWord @ decimal (i + 1))) \<and>
             idea_description (ideas ! i) =
               (if truthy (ownProperty (ideasArray ! i) (ascii ''description''))
              then ownProperty (ideasArray ! i) (ascii ''description'')
              else if truthy (ownProperty (ideasArray ! i) (ascii ''text''))
              then ownProperty (ideasArray ! i) (ascii ''text'')
              else JStr []))"
    by blast
next
  assume h: "request_content env = Inr content \<and> parseIdeasResponse content = Inr parsed \<and>
     findIdeasArray parsed = Inr items \<and> slice0 c items \<noteq> [] \<and>
     (\<forall>item \<in> set (slice0 c items). item \<noteq> JNull \<and> item \<noteq> JUndefined)"
  then have "\<forall>item \<in> set (slice0 c items). item \<noteq> JNull \<and> item \<noteq> JUndefined" by blast
  from mapIdeas_defined [OF this, of Date_now 0] obtain ideas where
    m: "mapIdeas Date_now 0 (slice0 c items) = Inr ideas" by blast
  from mapIdeas_length [OF m] h have "length ideas \<noteq> 0" by simp
  with h m have "generateIdeas env Date_now count = Inr ideas"
    by (simp add: generateIdeas_def andThen_def c_def)
  then show "\<exists>ideas. generateIdeas env Date_now count = Inr ideas" by blast
next
  assume "0 \<le> c"
  then show "slice0 c items = take (nat c) items" by (rule slice0_take)
next
  assume h: "request_content env = Inr content \<and> parseIdeasResponse content = Inr parsed \<and>
     findIdeasArray parsed = Inr items \<and> 1 \<le> length items \<and> int (length items) \<le> c \<and>
     (\<forall>item \<in> set items. item \<noteq> JNull \<and> item \<noteq> JUndefined)"
  then have s: "slice0 c items = items" by (simp add: slice0_all)
  from h have "\<forall>item \<in> set items. item \<noteq> JNull \<and> item \<noteq> JUndefined" by blast
  from mapIdeas_defined [OF this, of Date_now 0] obtain ideas where
    m: "mapIdeas Date_now 0 items = Inr ideas" by blast
  from mapIdeas_length [OF m] have l: "length ideas = length items" .
  from h have "items \<noteq> []" by auto
  with l have "length ideas \<noteq> 0" by simp
  with h m s have "generateIdeas env Date_now count = Inr ideas"
    by (simp add: generateIdeas_def andThen_def c_def)
  with l show "\<exists>ideas. generateIdeas env Date_now count = Inr ideas \<and> length ideas = length items"
    by blast
qed

theorem generateIdeas_fields_witness:
  "\<exists>ideas. generateIdeas (replying wrapped_ideas_text) fixed_clock (Some 3) = Inr ideas \<and>
     length ideas = 3 \<and>
     idea_title (ideas ! 0) = JStr (ascii ''A'') \<and>
     idea_description (ideas ! 0) = JStr (ascii ''B'') \<and>
     idea_title (ideas ! 1) = JStr ([1048, 1076, 1077, 1103, 32] @ ascii ''2'') \<and>
     idea_description (ideas ! 1) = JStr [] \<and>
     idea_title (ideas ! 2) = JStr (ascii ''C'') \<and>
     idea_description (ideas ! 2) = JStr (ascii ''D'')"
proof -
  let ?items = "[JObj [(ascii ''title'', JStr (ascii ''A'')), (ascii ''description'', JStr (ascii ''B''))],
                 JNum 7 0,
                 JObj [(ascii ''name'', JStr (ascii ''C'')), (ascii ''text'', JStr (ascii ''D''))],
                 JObj [(ascii ''title'', JStr (ascii ''E''))]]"
  let ?env = "replying wrapped_ideas_text"
  have c: "request_content ?env = Inr wrapped_ideas_text"
    by (simp add: request_content_def getOpenAIClient_def replying_def wrapped_ideas_text_def
        ascii_def)
  have "JSON_parse wrapped_ideas_text = Some (JObj [(ascii ''ideas'', JArr ?items)])"
    by (simp add: wrapped_ideas_text_def json_eval)
  then have p: "parseIdeasResponse wrapped_ideas_text = Inr (JObj [(ascii ''ideas'', JArr ?items)])"
    by (simp add: parseIdeasResponse_def)
  have f: "findIdeasArray (JObj [(ascii ''ideas'', JArr ?items)]) = Inr ?items"
    by (simp add: findIdeasArray_def getProp_def ownProperty_def andThen_def)
  have s: "slice0 3 ?items = take 3 ?items" by (simp add: slice0_def)
  have n: "slice0 3 ?items \<noteq> []"
    "\<forall>item \<in> set (slice0 3 ?items). item \<noteq> JNull \<and> item \<noteq> JUndefined"
    by (simp_all add: s)
  have "\<exists>ideas. generateIdeas ?env fixed_clock (Some 3) = Inr ideas"
  proof (rule mp [OF generateIdeas_fields [of ?env fixed_clock "Some 3" _ wrapped_ideas_text
          "JObj [(ascii ''ideas'', JArr ?items)]" ?items,
          THEN conjunct2, THEN conjunct1, unfolded option.case]])
    from c p f n
    show "request_content ?env = Inr wrapped_ideas_text \<and>
      parseIdeasResponse wrapped_ideas_text = Inr (JObj [(ascii ''ideas'', JArr ?items)]) \<and>
      findIdeasArray (JObj [(ascii ''ideas'', JArr ?items)]) = Inr ?items \<and>
      slice0 3 ?items \<noteq> [] \<and>
      (\<forall>item \<in> set (slice0 3 ?items). item \<noteq> JNull \<and> item \<noteq> JUndefined)"
      by (intro conjI)
  qed
  then obtain ideas where g: "generateIdeas ?env fixed_clock (Some 3) = Inr ideas" ..
  from generateIdeas_fields [of ?env fixed_clock "Some 3" ideas,
      THEN conjunct1, unfolded option.case, THEN mp, OF g]
  obtain content parsed ideasArray where
    c': "request_content ?env = Inr content" and p': "parseIdeasResponse content = Inr parsed" and
    f': "findIdeasArray parsed = Inr ideasArray" and
    l: "length ideas = length (slice0 3 ideasArray)" and
    a: "\<forall>i < length ideas.
             idea_title (ideas ! i) =
               (if truthy (ownProperty (ideasArray ! i) (ascii ''title''))
              then ownProperty (ideasArray ! i) (ascii ''title'')
              else if truthy (ownProperty (ideasArray ! i) (ascii ''name''))
              then ownProperty (ideasArray ! i) (ascii ''name'')
              else JStr (ideaWord @ decimal (i + 1))) \<and>
             idea_description (ideas ! i) =
               (if truthy (ownProperty (ideasArray ! i) (ascii ''description''))
              then ownProperty (ideasArray ! i) (ascii ''description'')
              else if truthy (ownProperty (ideasArray ! i) (ascii ''text''))
              then ownProperty (ideasArray ! i) (ascii ''text'')
              else JStr [])"
    by (elim exE conjE)
  from c c' have "content = wrapped_ideas_text" by simp
  with p p' have "parsed = JObj [(ascii ''ideas'', JArr ?items)]" by simp
  with f f' have e: "ideasArray = ?items" by simp
  from l e have l3: "length ideas = 3" by (simp add: s)
  from a [rule_format, of 0] l3 e have "idea_title (ideas ! 0) = JStr (ascii ''A'') \<and>
     idea_description (ideas ! 0) = JStr (ascii ''B'')"
    by (simp add: ownProperty_def ascii_def)
  moreover from a [rule_format, of 1] l3 e
  have "idea_title (ideas ! 1) = JStr ([1048, 1076, 1077, 1103, 32] @ ascii ''2'') \<and>
     idea_description (ideas ! 1) = JStr []"
    by (simp add: ownProperty_def ascii_def ideaWord_def decimal.simps)
  moreover from a [rule_format, of 2] l3 e have "idea_title (ideas ! 2) = JStr (ascii ''C'') \<and>
     idea_description (ideas ! 2) = JStr (ascii ''D'')"
    by (simp add: ownProperty_def ascii_def)
  ultimately show ?thesis using g l3 by blast
qed

section \<open>Properties of generateVeoPrompt\<close>

text \<open>
  C7, as claimed: the operation fails exactly when the resolved prompt is empty, and
  otherwise returns the resolved prompt and title. It fails twice. For
  \<open>padded_prompt_text\<close> the resolved prompt is \<open>" p "\<close> and the returned one is \<open>"p"\<close>.
  For \<open>numeric_title_text\<close> the resolved prompt is \<open>"p"\<close>, not empty, and the operation
  throws (a \<open>TypeError\<close>: the resolved title is the number 5, which has no \<open>trim\<close>).
\<close>

theorem generateVeoPrompt_resolution_counterexample:
  "parsePromptResponse padded_prompt_text =
     Inr (JObj [(ascii ''veo_prompt'', JStr (ascii '' p '')),
                (ascii ''video_title'', JStr (ascii ''t''))]) \<and>
   resolvePrompt (JObj [(ascii ''veo_prompt'', JStr (ascii '' p '')),
                        (ascii ''video_title'', JStr (ascii ''t''))]) = Inr (JStr (ascii '' p '')) \<and>
   generateVeoPrompt (replying padded_prompt_text) example_idea =
     Inr \<lparr>veoPrompt = ascii ''p'', videoTitle = ascii ''t''\<rparr> \<and>
   parsePromptResponse numeric_title_text =
     Inr (JObj [(ascii ''veo_prompt'', JStr (ascii ''p'')), (ascii ''video_title'', JNum 5 0)]) \<and>
   resolvePrompt (JObj [(ascii ''veo_prompt'', JStr (ascii ''p'')),
                        (ascii ''video_title'', JNum 5 0)]) = Inr (JStr (ascii ''p'')) \<and>
   generateVeoPrompt (replying numeric_title_text) example_idea = Inl (Wrapped TypeError)"
proof -
  have "parsePromptResponse padded_prompt_text =
     Inr (JObj [(ascii ''veo_prompt'', JStr (ascii '' p '')),
                (ascii ''video_title'', JStr (ascii ''t''))])"
    by (simp add: padded_prompt_text_def parsePromptResponse_def json_eval)
  moreover have "resolvePrompt (JObj [(ascii ''veo_prompt'', JStr (ascii '' p '')),
                        (ascii ''video_title'', JStr (ascii ''t''))]) = Inr (JStr (ascii '' p ''))"
    by (simp add: veo_eval ascii_def)
  moreover have "generateVeoPrompt (replying padded_prompt_text) example_idea =
     Inr \<lparr>veoPrompt = ascii ''p'', videoTitle = ascii ''t''\<rparr>"
    by (simp add: padded_prompt_text_def veo_eval json_eval)
  moreover have "parsePromptResponse numeric_title_text =
     Inr (JObj [(ascii ''veo_prompt'', JStr (ascii ''p'')), (ascii ''video_title'', JNum 5 0)])"
    by (simp add: numeric_title_text_def parsePromptResponse_def json_eval)
  moreover have "resolvePrompt (JObj [(ascii ''veo_prompt'', JStr (ascii ''p'')),
                        (ascii ''video_title'', JNum 5 0)]) = Inr (JStr (ascii ''p''))"
    by (simp add: veo_eval ascii_def)
  moreover have "generateVeoPrompt (replying numeric_title_text) example_idea =
     Inl (Wrapped TypeError)"
    by (simp add: numeric_title_text_def veo_eval json_eval)
  ultimately show ?thesis by blast
qed

text \<open>
  C7, amended: after a successful parse to \<open>parsed\<close>, the resolved prompt \<open>P\<close> is the first
  truthy one of the fields \<open>veo_prompt\<close>, \<open>veoPrompt\<close>, \<open>prompt\<close>, else the empty string;
  the resolved title \<open>T\<close> is the first truthy one of \<open>video_title\<close>, \<open>videoTitle\<close>,
  \<open>title\<close>, else the title of the input idea (a field that is absent, \<open>null\<close>, \<open>false\<close>,
  0 or empty is passed over). Then

  \<^item> the operation throws the missing-prompt error (\<open>VeoPromptMissing\<close>) exactly when
    \<open>parsed\<close> is not \<open>null\<close> and \<open>P\<close> is the empty string;
  \<^item> when \<open>parsed\<close> is not \<open>null\<close>, \<open>P\<close> is a non-empty string and \<open>T\<close> is a string, it
    returns \<open>P\<close> and \<open>T\<close>, each with the whitespace at both ends removed;
  \<^item> in the remaining cases (\<open>P\<close> is truthy and \<open>P\<close> or \<open>T\<close> is not a string, or \<open>parsed\<close>
    is \<open>null\<close>) it throws another error, a wrapped \<open>TypeError\<close>.
\<close>

theorem generateVeoPrompt_resolution:
  fixes parsed :: jsval and idea :: idea_arg
  defines "P \<equiv>
     (if truthy (ownProperty parsed (ascii ''veo_prompt'')) then ownProperty parsed (ascii ''veo_prompt'')
      else if truthy (ownProperty parsed (ascii ''veoPrompt'')) then ownProperty parsed (ascii ''veoPrompt'')
      else if truthy (ownProperty parsed (ascii ''prompt'')) then ownProperty parsed (ascii ''prompt'')
      else JStr [])"
    and "T \<equiv>
     (if truthy (ownProperty parsed (ascii ''video_title'')) then ownProperty parsed (ascii ''video_title'')
      else if truthy (ownProperty parsed (ascii ''videoTitle'')) then ownProperty parsed (ascii ''videoTitle'')
      else if truthy (ownProperty parsed (ascii ''title'')) then ownProperty parsed (ascii ''title'')
      else JStr (arg_title idea))"
  assumes "request_content env = Inr content"
    and "parsePromptResponse content = Inr parsed"
  shows "(generateVeoPrompt env idea = Inl (Wrapped VeoPromptMissing) \<longleftrightarrow>
            parsed \<noteq> JNull \<and> parsed \<noteq> JUndefined \<and> P = JStr []) \<and>
         (\<forall>p t. parsed \<noteq> JNull \<and> parsed \<noteq> JUndefined \<and> P = JStr p \<and> p \<noteq> [] \<and> T = JStr t \<longrightarrow>
            generateVeoPrompt env idea = Inr \<lparr>veoPrompt = trim p, videoTitle = trim t\<rparr>) \<and>
         (P \<noteq> JStr [] \<and> ((\<forall>p. P \<noteq> JStr p) \<or> (\<forall>t. T \<noteq> JStr t)) \<longrightarrow>
            generateVeoPrompt env idea = Inl (Wrapped TypeError)) \<and>
         (parsed = JNull \<or> parsed = JUndefined \<longrightarrow>
            generateVeoPrompt env idea = Inl (Wrapped TypeError))"
proof (cases "parsed = JNull \<or> parsed = JUndefined")
  case True
  then have "resolvePrompt parsed = Inl (Err TypeError)"
    by (auto simp: resolvePrompt_def getProp_def orElse_def)
  then have g: "generateVeoPrompt env idea = Inl (Wrapped TypeError)"
    by (simp add: generateVeoPrompt_def andThen_def assms(3,4))
  from True have "P = JStr []" by (auto simp: P_def ownProperty_def)
  with g True show ?thesis by auto
next
  case False
  then have d: "parsed \<noteq> JNull" "parsed \<noteq> JUndefined" by simp_all
  have g: "getProp parsed k = Inr (ownProperty parsed k)" for k
    using d by (rule getProp_defined)
  have rp: "resolvePrompt parsed = Inr P"
    by (simp add: resolvePrompt_def orElse_def g P_def)
  have rt: "resolveTitle parsed idea = Inr T"
    by (simp add: resolveTitle_def orElse_def g T_def)
  have tp: "truthy P \<longleftrightarrow> P \<noteq> JStr []" by (auto simp: P_def)
  have gen: "generateVeoPrompt env idea =
          (if P = JStr [] then Inl (Wrapped VeoPromptMissing)
           else case P of
                  JStr p \<Rightarrow> (case T of JStr t \<Rightarrow> Inr \<lparr>veoPrompt = trim p, videoTitle = trim t\<rparr>
                             | _ \<Rightarrow> Inl (Wrapped TypeError))
                | _ \<Rightarrow> Inl (Wrapped TypeError))"
    by (simp add: generateVeoPrompt_def andThen_def assms(3,4) rp rt tp callTrim_def
             split: jsval.splits)
  have 1: "generateVeoPrompt env idea = Inl (Wrapped VeoPromptMissing) \<longleftrightarrow>
            parsed \<noteq> JNull \<and> parsed \<noteq> JUndefined \<and> P = JStr []"
    using d by (simp add: gen split: jsval.splits)
  have 2: "\<forall>p t. parsed \<noteq> JNull \<and> parsed \<noteq> JUndefined \<and> P = JStr p \<and> p \<noteq> [] \<and> T = JStr t \<longrightarrow>
            generateVeoPrompt env idea = Inr \<lparr>veoPrompt = trim p, videoTitle = trim t\<rparr>"
    by (simp add: gen)
  have 3: "P \<noteq> JStr [] \<and> ((\<forall>p. P \<noteq> JStr p) \<or> (\<forall>t. T \<noteq> JStr t)) \<longrightarrow>
            generateVeoPrompt env idea = Inl (Wrapped TypeError)"
    by (auto simp: gen split: jsval.splits)
  from 1 2 3 False show ?thesis by blast
qed

theorem generateVeoPrompt_resolution_witness:
  "generateVeoPrompt (replying camel_case_text) example_idea =
     Inr \<lparr>veoPrompt = ascii ''a cat'', videoTitle = ascii ''Cat''\<rparr> \<and>
   generateVeoPrompt (replying (ascii ''{}'')) example_idea = Inl (Wrapped VeoPromptMissing) \<and>
   generateVeoPrompt (replying free_text_reply) example_idea =
     Inr \<lparr>veoPrompt = ascii ''A cat'', videoTitle = ascii ''Cat''\<rparr> \<and>
   generateVeoPrompt (replying null_title_text) example_idea =
     Inr \<lparr>veoPrompt = ascii ''p'', videoTitle = ascii ''Idea title''\<rparr> \<and>
   generateVeoPrompt (replying numeric_title_text) example_idea = Inl (Wrapped TypeError) \<and>
   generateVeoPrompt (replying (ascii ''null'')) example_idea = Inl (Wrapped TypeError)"
proof -
  let ?camel = "JObj [(ascii ''veoPrompt'', JStr (ascii '' a cat '')),
                      (ascii ''title'', JStr (ascii '' Cat ''))]"
  let ?free = "JObj [(ascii ''veo_prompt'', JStr (ascii ''A cat'')),
                     (ascii ''video_title'', JStr (ascii ''Cat''))]"
  let ?nullt = "JObj [(ascii ''veo_prompt'', JStr (ascii ''p'')), (ascii ''video_title'', JNull)]"
  let ?num = "JObj [(ascii ''veo_prompt'', JStr (ascii ''p'')), (ascii ''video_title'', JNum 5 0)]"
  have c1: "request_content (replying camel_case_text) = Inr camel_case_text"
    by (simp add: request_content_def getOpenAIClient_def replying_def camel_case_text_def
        ascii_def)
  have p1: "parsePromptResponse camel_case_text = Inr ?camel"
    by (simp add: camel_case_text_def parsePromptResponse_def json_eval)
  from generateVeoPrompt_resolution [OF c1 p1, of example_idea]
  have a: "generateVeoPrompt (replying camel_case_text) example_idea =
     Inr \<lparr>veoPrompt = ascii ''a cat'', videoTitle = ascii ''Cat''\<rparr>"
    by (simp add: ownProperty_def ascii_def trim_def isWhiteSpace_def)
  have c2: "request_content (replying (ascii ''{}'')) = Inr (ascii ''{}'')"
    by (simp add: request_content_def getOpenAIClient_def replying_def ascii_def)
  have p2: "parsePromptResponse (ascii ''{}'') = Inr (JObj [])"
    by (simp add: parsePromptResponse_def json_eval)
  from generateVeoPrompt_resolution [OF c2 p2, of example_idea]
  have b: "generateVeoPrompt (replying (ascii ''{}'')) example_idea =
     Inl (Wrapped VeoPromptMissing)"
    by (simp add: ownProperty_def)
  have c3: "request_content (replying free_text_reply) = Inr free_text_reply"
    by (simp add: request_content_def getOpenAIClient_def replying_def free_text_reply_def
        ascii_def)
  have p3: "parsePromptResponse free_text_reply = Inr ?free"
    by (simp add: free_text_reply_def veo_eval json_eval)
  from generateVeoPrompt_resolution [OF c3 p3, of example_idea]
  have c: "generateVeoPrompt (replying free_text_reply) example_idea =
     Inr \<lparr>veoPrompt = ascii ''A cat'', videoTitle = ascii ''Cat''\<rparr>"
    by (simp add: ownProperty_def ascii_def trim_def isWhiteSpace_def)
  have c4: "request_content (replying null_title_text) = Inr null_title_text"
    by (simp add: request_content_def getOpenAIClient_def replying_def null_title_text_def
        ascii_def)
  have p4: "parsePromptResponse null_title_text = Inr ?nullt"
    by (simp add: null_title_text_def parsePromptResponse_def json_eval)
  from generateVeoPrompt_resolution [OF c4 p4, of example_idea]
  have d: "generateVeoPrompt (replying null_title_text) example_idea =
     Inr \<lparr>veoPrompt = ascii ''p'', videoTitle = ascii ''Idea title''\<rparr>"
    by (simp add: ownProperty_def ascii_def trim_def isWhiteSpace_def example_idea_def)
  have c5: "request_content (replying numeric_title_text) = Inr numeric_title_text"
    by (simp add: request_content_def getOpenAIClient_def replying_def numeric_title_text_def
        ascii_def)
  have p5: "parsePromptResponse numeric_title_text = Inr ?num"
    by (simp add: numeric_title_text_def parsePromptResponse_def json_eval)
  from generateVeoPrompt_resolution [OF c5 p5, of example_idea]
  have e: "generateVeoPrompt (replying numeric_title_text) example_idea = Inl (Wrapped TypeError)"
    by (simp add: ownProperty_def ascii_def numberIsZero_def)
  have c6: "request_content (replying (ascii ''null'')) = Inr (ascii ''null'')"
    by (simp add: request_content_def getOpenAIClient_def replying_def ascii_def)
  have p6: "parsePromptResponse (ascii ''null'') = Inr JNull"
    by (simp add: parsePromptResponse_def json_eval)
  from generateVeoPrompt_resolution [OF c6 p6, of example_idea]
  have f: "generateVeoPrompt (replying (ascii ''null'')) example_idea = Inl (Wrapped TypeError)"
    by simp
  from a b c d e f show ?thesis by simp
qed

end
